theory Spec2Isabelle
  imports Complex_Main
begin

section \<open>The host framework: tensors, feeds and evaluation\<close>

text \<open>
  \<open>Model.__init__\<close> (ppo/policy.py) does not compute numbers: it builds a graph of tensor
  operations, which \<open>Model.train\<close> later evaluates with \<open>sess.run\<close> under a feed dictionary.
  The graph is therefore a datatype with one constructor per framework operation the source
  calls, and \<open>eval\<close> gives a node its value under a feed.

  Numbers are real numbers: the rounding of float32 and float64 arithmetic is not modelled.
  Where the framework has no real number to give, \<open>eval\<close> yields \<open>None\<close>: that is the
  case where the run raises (a placeholder that is not fed or is fed a value of another
  shape, operands whose shapes do not broadcast) and where the value is NaN (the mean of an
  empty batch).  \<open>None\<close> says no more than that about the run.  The boolean tensor of
  \<open>tf.greater\<close> is carried as 0 and 1, so that \<open>tf.to_float\<close> is the identity on it.

  The tensors that belong to the policy network (an argument of \<open>Model.__init__\<close>) are
  leaves named after the attribute that reaches them: \<open>train_model.X\<close>, \<open>train_model.S\<close>,
  \<open>train_model.M\<close>, \<open>train_model.vf\<close>, \<open>train_model.pd.entropy()\<close>,
  \<open>train_model.pd.neglogp(A)\<close> and \<open>train_model.pdtype.sample_placeholder([None])\<close>.
\<close>

datatype tensor =
    Placeholder string "nat option list"
  | TrainModel_X
  | TrainModel_S
  | TrainModel_M
  | Pdtype_sample_placeholder "nat option list"
  | TrainModel_vf
  | Pd_entropy
  | Pd_neglogp tensor
  | Const real
  | Neg tensor
  | Add tensor tensor
  | Sub tensor tensor
  | Mul tensor tensor
  | Exp tensor
  | Square tensor
  | Abs tensor
  | Greater tensor tensor
  | ToFloat tensor
  | ClipByValue tensor tensor tensor
  | Maximum tensor tensor
  | ReduceMean tensor

text \<open>
  A value is a scalar, a vector over the batch, or an array of another shape (observations,
  actions, recurrent states, masks), whose content the loss never inspects.
\<close>

datatype 'x tval = Sc real | Vec "real list" | Arr 'x

type_synonym 'x td_map = "tensor \<rightharpoonup> 'x tval"

fun fits :: "nat option list \<Rightarrow> 'x tval \<Rightarrow> bool" where
  "fits [] (Sc a) = True"
| "fits [None] (Vec xs) = True"
| "fits [Some n] (Vec xs) = (length xs = n)"
| "fits sh v = False"

fun unary :: "(real \<Rightarrow> real) \<Rightarrow> 'x tval \<Rightarrow> 'x tval option" where
  "unary f (Sc a) = Some (Sc (f a))"
| "unary f (Vec xs) = Some (Vec (map f xs))"
| "unary f (Arr a) = None"

text \<open>Element-wise binary operations broadcast a scalar or a one-element vector.\<close>

fun broadcast :: "(real \<Rightarrow> real \<Rightarrow> real) \<Rightarrow> 'x tval \<Rightarrow> 'x tval \<Rightarrow> 'x tval option" where
  "broadcast f (Sc a) (Sc b) = Some (Sc (f a b))"
| "broadcast f (Sc a) (Vec ys) = Some (Vec (map (f a) ys))"
| "broadcast f (Vec xs) (Sc b) = Some (Vec (map (\<lambda>x. f x b) xs))"
| "broadcast f (Vec xs) (Vec ys) =
     (if length xs = length ys then Some (Vec (map2 f xs ys))
      else if length xs = 1 then Some (Vec (map (f (hd xs)) ys))
      else if length ys = 1 then Some (Vec (map (\<lambda>x. f x (hd ys)) xs))
      else None)"
| "broadcast f (Arr a) v = None"
| "broadcast f v (Arr b) = None"

fun reduce_mean :: "'x tval \<Rightarrow> 'x tval option" where
  "reduce_mean (Sc a) = Some (Sc a)"
| "reduce_mean (Vec xs) = (if xs = [] then None else Some (Sc (sum_list xs / real (length xs))))"
| "reduce_mean (Arr a) = None"

definition greater :: "real \<Rightarrow> real \<Rightarrow> real" where
  "greater x y = (if x > y then 1 else 0)"

text \<open>
  What the framework supplies and this repository does not implement: the forward pass of the
  policy network, automatic differentiation, and the Adam update of the variables.  They are
  parameters; \<open>'p\<close> is the state of the session's variables.
\<close>

record ('p, 'x) framework =
  forward :: "'p \<Rightarrow> 'x td_map \<Rightarrow> tensor \<Rightarrow> 'x tval option"
  gradients :: "'p \<Rightarrow> 'x td_map \<Rightarrow> tensor \<Rightarrow> string \<Rightarrow> real list list"
  adam :: "real \<Rightarrow> real \<Rightarrow> real list list \<Rightarrow> 'p \<Rightarrow> 'p"

fun feed :: "'x td_map \<Rightarrow> tensor \<Rightarrow> nat option list \<Rightarrow> 'x tval option" where
  "feed td t sh = (case td t of None \<Rightarrow> None | Some v \<Rightarrow> if fits sh v then Some v else None)"

fun eval :: "('p, 'x) framework \<Rightarrow> 'p \<Rightarrow> 'x td_map \<Rightarrow> tensor \<Rightarrow> 'x tval option" where
  "eval fw \<theta> td (Placeholder s sh) = feed td (Placeholder s sh) sh"
| "eval fw \<theta> td TrainModel_X = td TrainModel_X"
| "eval fw \<theta> td TrainModel_S = td TrainModel_S"
| "eval fw \<theta> td TrainModel_M = td TrainModel_M"
| "eval fw \<theta> td (Pdtype_sample_placeholder sh) = td (Pdtype_sample_placeholder sh)"
| "eval fw \<theta> td TrainModel_vf = forward fw \<theta> td TrainModel_vf"
| "eval fw \<theta> td Pd_entropy = forward fw \<theta> td Pd_entropy"
| "eval fw \<theta> td (Pd_neglogp a) = forward fw \<theta> td (Pd_neglogp a)"
| "eval fw \<theta> td (Const c) = Some (Sc c)"
| "eval fw \<theta> td (Neg a) = Option.bind (eval fw \<theta> td a) (unary uminus)"
| "eval fw \<theta> td (Add a b) =
     Option.bind (eval fw \<theta> td a) (\<lambda>x. Option.bind (eval fw \<theta> td b) (broadcast (+) x))"
| "eval fw \<theta> td (Sub a b) =
     Option.bind (eval fw \<theta> td a) (\<lambda>x. Option.bind (eval fw \<theta> td b) (broadcast (-) x))"
| "eval fw \<theta> td (Mul a b) =
     Option.bind (eval fw \<theta> td a) (\<lambda>x. Option.bind (eval fw \<theta> td b) (broadcast (*) x))"
| "eval fw \<theta> td (Exp a) = Option.bind (eval fw \<theta> td a) (unary exp)"
| "eval fw \<theta> td (Square a) = Option.bind (eval fw \<theta> td a) (unary (\<lambda>x. x * x))"
| "eval fw \<theta> td (Abs a) = Option.bind (eval fw \<theta> td a) (unary abs)"
| "eval fw \<theta> td (Greater a b) =
     Option.bind (eval fw \<theta> td a) (\<lambda>x. Option.bind (eval fw \<theta> td b) (broadcast greater x))"
| "eval fw \<theta> td (ToFloat a) = eval fw \<theta> td a"
| "eval fw \<theta> td (ClipByValue t lo hi) =
     Option.bind (eval fw \<theta> td t) (\<lambda>v.
     Option.bind (eval fw \<theta> td lo) (\<lambda>l.
     Option.bind (eval fw \<theta> td hi) (\<lambda>h.
     Option.bind (broadcast min v h) (\<lambda>m. broadcast max m l))))"
| "eval fw \<theta> td (Maximum a b) =
     Option.bind (eval fw \<theta> td a) (\<lambda>x. Option.bind (eval fw \<theta> td b) (broadcast max x))"
| "eval fw \<theta> td (ReduceMean a) = Option.bind (eval fw \<theta> td a) reduce_mean"

section \<open>Model.__init__: the placeholders and the loss\<close>

definition A :: tensor where "A = Pdtype_sample_placeholder [None]"
definition ADV :: tensor where "ADV = Placeholder ''ADV'' [None]"
definition R :: tensor where "R = Placeholder ''R'' [None]"
definition OLDNEGLOGPAC :: tensor where "OLDNEGLOGPAC = Placeholder ''OLDNEGLOGPAC'' [None]"
definition OLDVPRED :: tensor where "OLDVPRED = Placeholder ''OLDVPRED'' [None]"
definition LR :: tensor where "LR = Placeholder ''LR'' []"
definition clip_range :: tensor where "clip_range = Placeholder ''clip_range'' []"

definition neglogpac :: tensor where "neglogpac = Pd_neglogp A"

definition entropy :: tensor where "entropy = ReduceMean Pd_entropy"

definition vpred :: tensor where "vpred = TrainModel_vf"

definition vpredclipped :: tensor where
  "vpredclipped = Add OLDVPRED (ClipByValue (Sub TrainModel_vf OLDVPRED) (Neg clip_range) clip_range)"

definition vf_losses1 :: tensor where "vf_losses1 = Square (Sub vpred R)"

definition vf_losses2 :: tensor where "vf_losses2 = Square (Sub vpredclipped R)"

definition vf_loss :: tensor where
  "vf_loss = Mul (Const (5 / 10)) (ReduceMean (Maximum vf_losses1 vf_losses2))"

definition ratio :: tensor where "ratio = Exp (Sub OLDNEGLOGPAC neglogpac)"

definition pg_losses :: tensor where "pg_losses = Mul (Neg ADV) ratio"

definition pg_losses2 :: tensor where
  "pg_losses2 = Mul (Neg ADV) (ClipByValue ratio (Sub (Const 1) clip_range) (Add (Const 1) clip_range))"

definition pg_loss :: tensor where "pg_loss = ReduceMean (Maximum pg_losses pg_losses2)"

definition approxkl :: tensor where
  "approxkl = Mul (Const (5 / 10)) (ReduceMean (Square (Sub neglogpac OLDNEGLOGPAC)))"

definition clipfrac :: tensor where
  "clipfrac = ReduceMean (ToFloat (Greater (Abs (Sub ratio (Const 1))) clip_range))"

definition loss :: "real \<Rightarrow> real \<Rightarrow> tensor" where
  "loss ent_coef vf_coef =
     Add (Sub pg_loss (Mul entropy (Const ent_coef))) (Mul vf_loss (Const vf_coef))"

text \<open>
  \<open>tf.clip_by_value\<close> on one number: the framework takes the minimum with the upper bound
  first and the maximum with the lower bound second, as \<open>eval\<close> does element-wise.
\<close>

definition clip_by_value :: "real \<Rightarrow> real \<Rightarrow> real \<Rightarrow> real" where
  "clip_by_value x lo hi = max (min x hi) lo"

section \<open>Model.__init__: gradients, optimizer and the model object\<close>

text \<open>
  \<open>trainer.compute_gradients(loss, params)\<close> is symbolic: the list of the derivatives of a
  tensor with respect to the trainable variables of a scope.
  \<open>tf.clip_by_global_norm(grads, c)\<close> multiplies every gradient by
  \<open>c * min(1 / global_norm, 1 / c)\<close>.  In floating point 1 / 0 is infinite, so the cases
  of a zero norm and of \<open>c = 0\<close> are written out: a zero norm with \<open>c \<noteq> 0\<close> gives the
  factor \<open>c * (1 / c) = 1\<close>, \<open>c = 0\<close> with a non-zero norm gives the factor 0, and both
  zero give 0 times infinity, which is NaN: then there are no real gradients and the
  result is \<open>None\<close>.
\<close>

datatype gradient_list =
    ComputeGradients tensor string
  | ClipByGlobalNorm gradient_list real

datatype optimizer = AdamOptimizer tensor real

datatype operation = ApplyGradients optimizer gradient_list

definition global_norm :: "real list list \<Rightarrow> real" where
  "global_norm ts = sqrt (sum_list (map (\<lambda>t. sum_list (map (\<lambda>x. x * x) t)) ts))"

definition clip_scale :: "real \<Rightarrow> real \<Rightarrow> real" where
  "clip_scale use_norm c =
     (if use_norm = 0 then 1 else if c = 0 then 0 else c * min (1 / use_norm) (1 / c))"

definition clip_by_global_norm ::
  "real list list \<Rightarrow> real \<Rightarrow> (real list list \<times> real) option" where
  "clip_by_global_norm ts c =
     (let use_norm = global_norm ts in
      if use_norm = 0 \<and> c = 0 then None
      else Some (map (map (\<lambda>x. x * clip_scale use_norm c)) ts, use_norm))"

fun eval_grads ::
  "('p, 'x) framework \<Rightarrow> 'p \<Rightarrow> 'x td_map \<Rightarrow> gradient_list \<Rightarrow> real list list option" where
  "eval_grads fw \<theta> td (ComputeGradients l scope) = Some (gradients fw \<theta> td l scope)"
| "eval_grads fw \<theta> td (ClipByGlobalNorm g c) =
     Option.bind (eval_grads fw \<theta> td g) (\<lambda>ts. map_option fst (clip_by_global_norm ts c))"

datatype comm = COMM_WORLD | Communicator nat

record policy_model =
  nbatch :: nat
  nsteps :: nat

definition policy :: "nat \<Rightarrow> nat \<Rightarrow> policy_model" where
  "policy nb ns = \<lparr>nbatch = nb, nsteps = ns\<rparr>"

text \<open>
  The attributes \<open>Model.__init__\<close> stores on the object.  The placeholders are the constants
  above; \<open>step\<close>, \<open>value\<close>, \<open>initial_state\<close>, \<open>save\<close> and \<open>load\<close> only forward to the
  sampling model and to the checkpoint helpers and are left out.  \<open>sync_comm\<close> records the
  communicator handed to \<open>sync_from_root\<close>, which copies the root's initial variables to the
  other processes once, at construction.
\<close>

record Model =
  trainer :: optimizer
  grads :: gradient_list
  var :: string
  train_op :: operation
  loss_names :: "string list"
  stats_list :: "tensor list"
  train_model :: policy_model
  act_model :: policy_model
  sync_comm :: "comm option"

text \<open>
  \<open>MPI\<close> is the module-level name: false when the import of the MPI bindings failed
  (\<open>MPI = None\<close>).  \<open>mpi_rank_weight\<close> is accepted and not used.
\<close>

definition Model_init ::
  "bool \<Rightarrow> nat \<Rightarrow> nat \<Rightarrow> nat \<Rightarrow> real \<Rightarrow> real \<Rightarrow> real option \<Rightarrow> real \<Rightarrow> comm option \<Rightarrow> nat option
   \<Rightarrow> Model" where
  "Model_init MPI nbatch_act nbatch_train n_steps ent_coef vf_coef max_grad_norm mpi_rank_weight
     comm microbatch_size =
   (let comm1 = (if MPI \<and> comm = None then Some COMM_WORLD else comm);
        act = policy nbatch_act 1;
        train = (case microbatch_size of
                   None \<Rightarrow> policy nbatch_train n_steps
                 | Some mb \<Rightarrow> policy mb n_steps);
        params = ''ppo2_model'';
        tr = AdamOptimizer LR (1 / 10 ^ 5);
        grads0 = ComputeGradients (loss ent_coef vf_coef) params;
        grads1 = (case max_grad_norm of
                    None \<Rightarrow> grads0
                  | Some c \<Rightarrow> ClipByGlobalNorm grads0 c)
    in \<lparr>trainer = tr,
        grads = grads1,
        var = params,
        train_op = ApplyGradients tr grads1,
        loss_names = [''policy_loss'', ''value_loss'', ''policy_entropy'', ''approxkl'',
                      ''clipfrac''],
        stats_list = [pg_loss, vf_loss, entropy, approxkl, clipfrac],
        train_model = train,
        act_model = act,
        sync_comm = (if MPI then comm1 else None)\<rparr>)"

section \<open>The session and Model.train\<close>

datatype error = NotImplementedError | ValueError

datatype fetch = Tensor tensor | Op operation

datatype 'x fetched = Value "'x tval" | NoValue

text \<open>
  \<open>sess.run(fetches, td_map)\<close>: every tensor is evaluated on the variables as they are before
  the run (the statistics share their forward pass with the loss), an operation yields
  \<open>None\<close> and updates the variables.  The result is the list of fetched values together
  with the variables after the run, which are \<open>None\<close> when the update was computed from
  gradients that are not numbers.

  The run as a whole is \<open>None\<close> when a fetched tensor has no real value: the framework then
  raises (\<open>ValueError\<close> for a fed value of the wrong shape, before anything is run;
  \<open>InvalidArgumentError\<close> while running, possibly after a part of the update has been
  applied) or returns NaN statistics (an empty batch).  Which of these happens, and what the
  variables are afterwards, is not described.
\<close>

fun run_fetches ::
  "('p, 'x) framework \<Rightarrow> 'p \<Rightarrow> 'x td_map \<Rightarrow> fetch list \<Rightarrow> 'p option
   \<Rightarrow> ('x fetched list \<times> 'p option) option" where
  "run_fetches fw \<theta>0 td [] s = Some ([], s)"
| "run_fetches fw \<theta>0 td (Tensor t # fs) s =
     (case eval fw \<theta>0 td t of
        None \<Rightarrow> None
      | Some v \<Rightarrow> (case run_fetches fw \<theta>0 td fs s of
                    None \<Rightarrow> None
                  | Some (vs, s') \<Rightarrow> Some (Value v # vs, s')))"
| "run_fetches fw \<theta>0 td (Op (ApplyGradients (AdamOptimizer lr eps) g) # fs) s =
     (case eval fw \<theta>0 td lr of
        Some (Sc l) \<Rightarrow>
          (case run_fetches fw \<theta>0 td fs
                  (Option.bind s (\<lambda>\<theta>.
                     map_option (\<lambda>gv. adam fw l eps gv \<theta>) (eval_grads fw \<theta>0 td g))) of
             None \<Rightarrow> None
           | Some (vs, s') \<Rightarrow> Some (NoValue # vs, s'))
      | _ \<Rightarrow> None)"

definition sess_run ::
  "('p, 'x) framework \<Rightarrow> 'p \<Rightarrow> fetch list \<Rightarrow> 'x td_map \<Rightarrow> ('x fetched list \<times> 'p option) option" where
  "sess_run fw \<theta> fetches td = run_fetches fw \<theta> td fetches (Some \<theta>)"

text \<open>
  The array arithmetic of \<open>Model.train\<close> on one-dimensional arrays.  The subtraction
  broadcasts a one-element array and raises on any other mismatch of the lengths;
  \<open>mean\<close> and \<open>std\<close> are the population mean and standard deviation.  Of an empty array
  they are NaN, here \<open>None\<close>.
\<close>

definition np_sub :: "real list \<Rightarrow> real list \<Rightarrow> error + real list" where
  "np_sub xs ys =
     (if length xs = length ys then Inr (map2 (-) xs ys)
      else if length ys = 1 then Inr (map (\<lambda>x. x - hd ys) xs)
      else if length xs = 1 then Inr (map (\<lambda>y. hd xs - y) ys)
      else Inl ValueError)"

definition np_mean :: "real list \<Rightarrow> real option" where
  "np_mean xs = (if xs = [] then None else Some (sum_list xs / real (length xs)))"

definition np_std :: "real list \<Rightarrow> real option" where
  "np_std xs =
     (case np_mean xs of
        None \<Rightarrow> None
      | Some m \<Rightarrow> map_option sqrt (np_mean (map (\<lambda>x. \<bar>x - m\<bar> ^ 2) xs)))"

text \<open>
  The first half of \<open>Model.train\<close>: the advantages and the feed dictionary.  Mean and
  standard deviation are NaN only for an empty array of advantages, and the normalized
  array is then empty as well: it has no element that could hold the NaN.
\<close>

definition train_td_map ::
  "real \<Rightarrow> real \<Rightarrow> 'x \<Rightarrow> real list \<Rightarrow> 'x \<Rightarrow> 'x \<Rightarrow> real list \<Rightarrow> real list \<Rightarrow> 'x option
   \<Rightarrow> error + 'x td_map" where
  "train_td_map lr cliprange obs returns masks actions values neglogpacs states =
     (case np_sub returns values of
        Inl e \<Rightarrow> Inl e
      | Inr advs0 \<Rightarrow>
          (let advs = (case np_mean advs0 of
                         None \<Rightarrow> []
                       | Some m \<Rightarrow>
                           (case np_std advs0 of
                              None \<Rightarrow> []
                            | Some sd \<Rightarrow> map (\<lambda>a. (a - m) / (sd + 1 / 10 ^ 8)) advs0));
               td_map = [TrainModel_X \<mapsto> Arr obs,
                         A \<mapsto> Arr actions,
                         ADV \<mapsto> Vec advs,
                         R \<mapsto> Vec returns,
                         LR \<mapsto> Sc lr,
                         clip_range \<mapsto> Sc cliprange,
                         OLDNEGLOGPAC \<mapsto> Vec neglogpacs,
                         OLDVPRED \<mapsto> Vec values]
           in Inr (case states of
                     None \<Rightarrow> td_map
                   | Some s \<Rightarrow> td_map(TrainModel_S \<mapsto> Arr s, TrainModel_M \<mapsto> Arr masks))))"

text \<open>
  A call of \<open>Model.train\<close> raises in its own array arithmetic, or its session run has no
  real-valued result, or it returns the fetched values without the last one, leaving the
  session with the variables after the run.
\<close>

datatype 'a outcome = Raises error | NoRealResult | Returns 'a

definition train ::
  "Model \<Rightarrow> ('p, 'x) framework \<Rightarrow> 'p \<Rightarrow> real \<Rightarrow> real \<Rightarrow> 'x \<Rightarrow> real list \<Rightarrow> 'x \<Rightarrow> 'x \<Rightarrow> real list
   \<Rightarrow> real list \<Rightarrow> 'x option \<Rightarrow> ('x fetched list \<times> 'p option) outcome" where
  "train self fw \<theta> lr cliprange obs returns masks actions values neglogpacs states =
     (case train_td_map lr cliprange obs returns masks actions values neglogpacs states of
        Inl e \<Rightarrow> Raises e
      | Inr td_map \<Rightarrow>
          (case sess_run fw \<theta> (map Tensor (stats_list self) @ [Op (train_op self)]) td_map of
             None \<Rightarrow> NoRealResult
           | Some (vs, s) \<Rightarrow> Returns (butlast vs, s)))"

section \<open>The base policy (base_policies/base.py)\<close>

record ('s, 'sp, 'f) Policy =
  sess :: 's
  ob_space :: 'sp
  ac_space :: 'sp
  co_space :: 'sp
  verbose :: int
  layers :: "nat list option"
  layer_norm :: bool
  act_fun :: 'f
  use_huber :: bool

definition Policy_init ::
  "'s \<Rightarrow> 'sp \<Rightarrow> 'sp \<Rightarrow> 'sp \<Rightarrow> int \<Rightarrow> bool \<Rightarrow> nat list option \<Rightarrow> 'f \<Rightarrow> bool \<Rightarrow> ('s, 'sp, 'f) Policy" where
  "Policy_init s ob ac co vb lnorm ls af uh =
     \<lparr>sess = s, ob_space = ob, ac_space = ac, co_space = co, verbose = vb, layers = ls,
      layer_norm = lnorm, act_fun = af, use_huber = uh\<rparr>"

text \<open>
  A method takes the object and returns its result, or the exception raised, together with
  the object as the call leaves it.
\<close>

definition initialize :: "('s, 'sp, 'f) Policy \<Rightarrow> (error + unit) \<times> ('s, 'sp, 'f) Policy" where
  "initialize self = (Inl NotImplementedError, self)"

definition update ::
  "('s, 'sp, 'f) Policy \<Rightarrow> bool \<Rightarrow> 'kw \<Rightarrow> (error + unit) \<times> ('s, 'sp, 'f) Policy" where
  "update self update_actor kwargs = (Inl NotImplementedError, self)"

definition get_action ::
  "('s, 'sp, 'f) Policy \<Rightarrow> 'o \<Rightarrow> 'o option \<Rightarrow> bool \<Rightarrow> bool \<Rightarrow> int
   \<Rightarrow> (error + 'a) \<times> ('s, 'sp, 'f) Policy" where
  "get_action self obs context apply_noise random_actions env_num = (Inl NotImplementedError, self)"

definition get_td_map :: "('s, 'sp, 'f) Policy \<Rightarrow> (error + 'd) \<times> ('s, 'sp, 'f) Policy" where
  "get_td_map self = (Inl NotImplementedError, self)"

text \<open>
  An array is its shape and its elements in row-major order.  \<open>flatten\<close> keeps the elements
  and makes the shape one-dimensional; \<open>np.concatenate\<close> of two arrays along an axis raises
  for a zero-dimensional array, for arrays of different rank, for an axis out of range and
  for shapes that differ off the axis, and otherwise interleaves the blocks of the two arrays.
\<close>

record ndarray =
  shape :: "nat list"
  data :: "real list"

definition flatten :: "ndarray \<Rightarrow> ndarray" where
  "flatten a = \<lparr>shape = [length (data a)], data = data a\<rparr>"

definition np_concatenate :: "ndarray \<Rightarrow> ndarray \<Rightarrow> int \<Rightarrow> error + ndarray" where
  "np_concatenate a b axis =
     (let nd = length (shape a) in
      if nd = 0 \<or> length (shape b) = 0 then Inl ValueError
      else if length (shape b) \<noteq> nd then Inl ValueError
      else if axis < - int nd \<or> int nd \<le> axis then Inl ValueError
      else
        (let k = nat (if axis < 0 then axis + int nd else axis) in
         if take k (shape a) \<noteq> take k (shape b) \<or> drop (Suc k) (shape a) \<noteq> drop (Suc k) (shape b)
         then Inl ValueError
         else
           (let outer = prod_list (take k (shape a));
                ca = prod_list (drop k (shape a));
                cb = prod_list (drop k (shape b))
            in Inr \<lparr>shape = (shape a)[k := shape a ! k + shape b ! k],
                    data = concat (map (\<lambda>i. take ca (drop (i * ca) (data a)) @
                                            take cb (drop (i * cb) (data b))) [0..<outer])\<rparr>)))"

definition get_obs :: "ndarray \<Rightarrow> ndarray option \<Rightarrow> int \<Rightarrow> error + ndarray" where
  "get_obs obs context axis =
     (case context of
        None \<Rightarrow> Inr obs
      | Some c \<Rightarrow> np_concatenate obs (if axis = 0 then flatten c else c) axis)"

section \<open>Observations on the graph and on the feed\<close>

text \<open>
  The tensor a gradient list differentiates, the tensors that occur in a tensor, and the
  value a feed dictionary holds for a placeholder (nothing when its construction raised).
\<close>

fun differentiated :: "gradient_list \<Rightarrow> tensor" where
  "differentiated (ComputeGradients l scope) = l"
| "differentiated (ClipByGlobalNorm g c) = differentiated g"

primrec subtensors :: "tensor \<Rightarrow> tensor set" where
  "subtensors (Placeholder s sh) = {Placeholder s sh}"
| "subtensors TrainModel_X = {TrainModel_X}"
| "subtensors TrainModel_S = {TrainModel_S}"
| "subtensors TrainModel_M = {TrainModel_M}"
| "subtensors (Pdtype_sample_placeholder sh) = {Pdtype_sample_placeholder sh}"
| "subtensors TrainModel_vf = {TrainModel_vf}"
| "subtensors Pd_entropy = {Pd_entropy}"
| "subtensors (Pd_neglogp a) = insert (Pd_neglogp a) (subtensors a)"
| "subtensors (Const c) = {Const c}"
| "subtensors (Neg a) = insert (Neg a) (subtensors a)"
| "subtensors (Add a b) = insert (Add a b) (subtensors a \<union> subtensors b)"
| "subtensors (Sub a b) = insert (Sub a b) (subtensors a \<union> subtensors b)"
| "subtensors (Mul a b) = insert (Mul a b) (subtensors a \<union> subtensors b)"
| "subtensors (Exp a) = insert (Exp a) (subtensors a)"
| "subtensors (Square a) = insert (Square a) (subtensors a)"
| "subtensors (Abs a) = insert (Abs a) (subtensors a)"
| "subtensors (Greater a b) = insert (Greater a b) (subtensors a \<union> subtensors b)"
| "subtensors (ToFloat a) = insert (ToFloat a) (subtensors a)"
| "subtensors (ClipByValue t lo hi) =
     insert (ClipByValue t lo hi) (subtensors t \<union> subtensors lo \<union> subtensors hi)"
| "subtensors (Maximum a b) = insert (Maximum a b) (subtensors a \<union> subtensors b)"
| "subtensors (ReduceMean a) = insert (ReduceMean a) (subtensors a)"

definition fed :: "error + 'x td_map \<Rightarrow> tensor \<Rightarrow> 'x tval option" where
  "fed r t = (case r of Inl e \<Rightarrow> None | Inr td \<Rightarrow> td t)"

section \<open>Concrete inputs\<close>

text \<open>
  A small framework on which the model can be run: the policy network answers with fixed
  vectors for a batch of two, the gradient of any loss is read off the fed returns, and the
  update is one step of plain gradient descent on a list of weight vectors.
\<close>

definition example_forward :: "real list list \<Rightarrow> unit td_map \<Rightarrow> tensor \<Rightarrow> unit tval option" where
  "example_forward \<theta> td t =
     (if t = Pd_neglogp (Pdtype_sample_placeholder [None]) then Some (Vec [0, 0])
      else if t = Pd_entropy then Some (Vec [1, 3])
      else if t = TrainModel_vf then Some (Vec [1, 2])
      else None)"

definition example_gradients ::
  "real list list \<Rightarrow> unit td_map \<Rightarrow> tensor \<Rightarrow> string \<Rightarrow> real list list" where
  "example_gradients \<theta> td l scope =
     (case td (Placeholder ''R'' [None]) of Some (Vec xs) \<Rightarrow> [xs] | _ \<Rightarrow> [])"

definition example_adam :: "real \<Rightarrow> real \<Rightarrow> real list list \<Rightarrow> real list list \<Rightarrow> real list list" where
  "example_adam lr eps g \<theta> = map2 (map2 (\<lambda>w d. w - lr * d)) \<theta> g"

definition example_framework :: "(real list list, unit) framework" where
  "example_framework =
     \<lparr>forward = example_forward, gradients = example_gradients, adam = example_adam\<rparr>"

definition example_td :: "unit td_map" where
  "example_td = [ADV \<mapsto> Vec [1, - 1], R \<mapsto> Vec [1, 4], LR \<mapsto> Sc 1,
                 clip_range \<mapsto> Sc (1 / 5), OLDNEGLOGPAC \<mapsto> Vec [0, 0], OLDVPRED \<mapsto> Vec [0, 0]]"

section \<open>Evaluating the loss terms\<close>

lemmas graph_defs = A_def ADV_def R_def OLDNEGLOGPAC_def OLDVPRED_def LR_def clip_range_def
  neglogpac_def entropy_def vpred_def vpredclipped_def vf_losses1_def vf_losses2_def vf_loss_def
  ratio_def pg_losses_def pg_losses2_def pg_loss_def approxkl_def clipfrac_def loss_def

lemmas example_defs = example_forward_def example_gradients_def example_adam_def
  example_framework_def example_td_def

lemma sum_list_nth_eq:
  "length xs = n \<Longrightarrow> (\<And>i. i < n \<Longrightarrow> xs ! i = f i) \<Longrightarrow> sum_list xs = (\<Sum>i<n. f i)"
  by (simp add: sum_list_sum_nth atLeast0LessThan)

lemma eval_pg_loss:
  assumes "td ADV = Some (Vec adv)" "td OLDNEGLOGPAC = Some (Vec old)"
    "forward fw \<theta> td neglogpac = Some (Vec nlp)" "td clip_range = Some (Sc c)"
    "length adv = n" "length old = n" "length nlp = n" "0 < n"
  shows "eval fw \<theta> td pg_loss =
     Some (Sc ((\<Sum>i<n. max (- (adv ! i) * exp (old ! i - nlp ! i))
                       (- (adv ! i) * clip_by_value (exp (old ! i - nlp ! i)) (1 - c) (1 + c))) / real n))"
proof -
  have ne: "adv \<noteq> []" "old \<noteq> []" "nlp \<noteq> []" using assms by auto
  let ?l = "map2 max (map2 (*) (map uminus adv) (map exp (map2 (-) old nlp)))
      (map2 (*) (map uminus adv)
         (map (\<lambda>x. max x (1 - c)) (map (\<lambda>x. min x (1 + c)) (map exp (map2 (-) old nlp)))))"
  have "eval fw \<theta> td pg_loss = Some (Sc (sum_list ?l / real n))"
    using assms ne unfolding graph_defs by simp
  also have "sum_list ?l = (\<Sum>i<n. max (- (adv ! i) * exp (old ! i - nlp ! i))
                       (- (adv ! i) * clip_by_value (exp (old ! i - nlp ! i)) (1 - c) (1 + c)))"
    using assms by (intro sum_list_nth_eq) (simp_all add: clip_by_value_def)
  finally show ?thesis .
qed

lemma max_neg_mult_nonneg:
  fixes a :: real
  assumes "0 \<le> a"
  shows "max (- a * x) (- a * y) = - a * min x y"
proof (cases "x \<le> y")
  case True
  then have "a * x \<le> a * y" using assms by (rule mult_left_mono)
  then have "max (- a * x) (- a * y) = - a * x" by (simp add: max_def)
  then show ?thesis using True by (simp add: min_def)
next
  case False
  then have "y \<le> x" by simp
  then have "a * y \<le> a * x" using assms by (rule mult_left_mono)
  then have "max (- a * x) (- a * y) = - a * y" by (simp add: max_def)
  then show ?thesis using False by (simp add: min_def)
qed

lemma max_neg_mult_nonpos:
  fixes a :: real
  assumes "a \<le> 0"
  shows "max (- a * x) (- a * y) = - a * max x y"
proof -
  have "max ((- a) * x) ((- a) * y) = (- a) * max x y"
    using assms by (simp add: max_mult_distrib_left)
  then show ?thesis by simp
qed

lemma surrogate_capped:
  assumes "0 \<le> c"
  shows "max (- a * r) (- a * clip_by_value r (1 - c) (1 + c)) =
         (if 0 \<le> a then - a * min r (1 + c) else - a * max r (1 - c))"
proof (cases "0 \<le> a")
  case True
  have "min r (clip_by_value r (1 - c) (1 + c)) = min r (1 + c)"
    using assms by (auto simp: clip_by_value_def min_def max_def)
  then show ?thesis using True max_neg_mult_nonneg [OF True, of r] by simp
next
  case False
  then have neg: "a \<le> 0" by simp
  have "max r (clip_by_value r (1 - c) (1 + c)) = max r (1 - c)"
    using assms by (auto simp: clip_by_value_def min_def max_def)
  then show ?thesis using False max_neg_mult_nonpos [OF neg, of r] by simp
qed

lemma eval_vf_loss:
  assumes "td R = Some (Vec ret)" "td OLDVPRED = Some (Vec oldv)"
    "forward fw \<theta> td TrainModel_vf = Some (Vec vp)" "td clip_range = Some (Sc c)"
    "length ret = n" "length oldv = n" "length vp = n" "0 < n"
  shows "eval fw \<theta> td vf_loss =
     Some (Sc (5 / 10 * ((\<Sum>i<n. max ((vp ! i - ret ! i) * (vp ! i - ret ! i))
          ((oldv ! i + clip_by_value (vp ! i - oldv ! i) (- c) c - ret ! i) *
           (oldv ! i + clip_by_value (vp ! i - oldv ! i) (- c) c - ret ! i))) / real n)))"
proof -
  have ne: "ret \<noteq> []" "oldv \<noteq> []" "vp \<noteq> []" using assms by auto
  let ?l = "map2 max (map (\<lambda>x. x * x) (map2 (-) vp ret))
     (map (\<lambda>x. x * x) (map2 (-) (map2 (+) oldv
        (map (\<lambda>x. max x (- c)) (map (\<lambda>x. min x c) (map2 (-) vp oldv)))) ret))"
  have "eval fw \<theta> td vf_loss = Some (Sc (5 / 10 * (sum_list ?l / real n)))"
    using assms ne unfolding graph_defs by simp
  also have "sum_list ?l = (\<Sum>i<n. max ((vp ! i - ret ! i) * (vp ! i - ret ! i))
          ((oldv ! i + clip_by_value (vp ! i - oldv ! i) (- c) c - ret ! i) *
           (oldv ! i + clip_by_value (vp ! i - oldv ! i) (- c) c - ret ! i)))"
    using assms by (intro sum_list_nth_eq) (simp_all add: clip_by_value_def)
  finally show ?thesis .
qed

lemma eval_entropy:
  assumes "forward fw \<theta> td Pd_entropy = Some (Vec ent)" "ent \<noteq> []"
  shows "eval fw \<theta> td entropy = Some (Sc (sum_list ent / real (length ent)))"
  using assms unfolding graph_defs by simp

lemma eval_approxkl:
  assumes "td OLDNEGLOGPAC = Some (Vec old)" "forward fw \<theta> td neglogpac = Some (Vec nlp)"
    "length old = n" "length nlp = n" "0 < n"
  shows "eval fw \<theta> td approxkl =
     Some (Sc (5 / 10 * ((\<Sum>i<n. (nlp ! i - old ! i) * (nlp ! i - old ! i)) / real n)))"
proof -
  have ne: "old \<noteq> []" "nlp \<noteq> []" using assms by auto
  have "eval fw \<theta> td approxkl =
      Some (Sc (5 / 10 * (sum_list (map (\<lambda>x. x * x) (map2 (-) nlp old)) / real n)))"
    using assms ne unfolding graph_defs by simp
  also have "sum_list (map (\<lambda>x. x * x) (map2 (-) nlp old)) =
      (\<Sum>i<n. (nlp ! i - old ! i) * (nlp ! i - old ! i))"
    using assms by (intro sum_list_nth_eq) simp_all
  finally show ?thesis .
qed

lemma eval_clipfrac:
  assumes "td OLDNEGLOGPAC = Some (Vec old)" "forward fw \<theta> td neglogpac = Some (Vec nlp)"
    "td clip_range = Some (Sc c)"
    "length old = n" "length nlp = n" "0 < n"
  shows "eval fw \<theta> td clipfrac =
     Some (Sc (sum_list (map (\<lambda>x. greater x c)
       (map abs (map (\<lambda>x. x - 1) (map exp (map2 (-) old nlp))))) / real n))"
proof -
  have ne: "old \<noteq> []" "nlp \<noteq> []" using assms by auto
  show ?thesis using assms ne unfolding graph_defs by simp
qed

lemma eval_loss:
  assumes "eval fw \<theta> td pg_loss = Some (Sc p)" "eval fw \<theta> td entropy = Some (Sc e)"
    "eval fw \<theta> td vf_loss = Some (Sc v)"
  shows "eval fw \<theta> td (loss ent_coef vf_coef) = Some (Sc (p - e * ent_coef + v * vf_coef))"
  using assms unfolding loss_def by simp

section \<open>The policy-gradient loss\<close>

text \<open>
  Claim C1.  Under a feed of a batch of \<open>n > 0\<close> samples, \<open>pg_loss\<close> evaluates to the mean over
  the batch of \<open>max(-ADV * ratio, -ADV * clip(ratio, 1 - clip_range, 1 + clip_range))\<close> with
  \<open>ratio = exp(OLDNEGLOGPAC - neglogpac)\<close>.  For a clip range that is not negative the
  ratio of a sample enters its term only through the clip range: capped at
  \<open>1 + clip_range\<close> where the advantage is not negative, floored at \<open>1 - clip_range\<close>
  where it is negative.
\<close>

theorem pg_loss_clipped_surrogate:
  assumes "td ADV = Some (Vec adv)" and "td OLDNEGLOGPAC = Some (Vec old)"
    and "forward fw \<theta> td neglogpac = Some (Vec nlp)" and "td clip_range = Some (Sc c)"
    and "length adv = n" and "length old = n" and "length nlp = n" and "0 < n"
  shows "eval fw \<theta> td pg_loss =
           Some (Sc ((\<Sum>i<n. max (- (adv ! i) * exp (old ! i - nlp ! i))
              (- (adv ! i) * clip_by_value (exp (old ! i - nlp ! i)) (1 - c) (1 + c))) / real n))
       \<and> (0 \<le> c \<longrightarrow> (\<forall>i<n.
            max (- (adv ! i) * exp (old ! i - nlp ! i))
                (- (adv ! i) * clip_by_value (exp (old ! i - nlp ! i)) (1 - c) (1 + c)) =
            (if 0 \<le> adv ! i then - (adv ! i) * min (exp (old ! i - nlp ! i)) (1 + c)
             else - (adv ! i) * max (exp (old ! i - nlp ! i)) (1 - c))))"
  using eval_pg_loss [OF assms] surrogate_capped by blast

theorem pg_loss_clipped_surrogate_witness:
  "eval example_framework [] example_td pg_loss = Some (Sc 0)"
proof -
  have h1: "example_td ADV = Some (Vec [1, - 1])"
    by (simp add: example_defs graph_defs)
  have h2: "example_td OLDNEGLOGPAC = Some (Vec [0, 0])"
    by (simp add: example_defs graph_defs)
  have h3: "forward example_framework [] example_td neglogpac = Some (Vec [0, 0])"
    by (simp add: example_defs graph_defs)
  have h4: "example_td clip_range = Some (Sc (1 / 5))"
    by (simp add: example_defs graph_defs)
  have "eval example_framework [] example_td pg_loss =
           Some (Sc ((\<Sum>i<2. max (- ([1, - 1] ! i) * exp ([0, 0] ! i - [0, 0] ! i))
              (- ([1, - 1] ! i) * clip_by_value (exp ([0, 0] ! i - [0, 0] ! i)) (1 - 1 / 5) (1 + 1 / 5)))
                / real 2))"
    using pg_loss_clipped_surrogate [OF h1 h2 h3 h4, of 2] by simp
  then show ?thesis
    by (simp add: numeral_2_eq_2 lessThan_Suc clip_by_value_def)
qed

section \<open>The value loss\<close>

text \<open>
  Claim C2.  Under a feed of a batch of \<open>n > 0\<close> samples, \<open>vf_loss\<close> evaluates to one half of
  the mean over the batch of the larger of the squared errors \<open>(vpred - R)^2\<close> and
  \<open>(vpredclipped - R)^2\<close>, where
  \<open>vpredclipped = OLDVPRED + clip(vpred - OLDVPRED, - clip_range, clip_range)\<close>.
\<close>

theorem vf_loss_clipped_squared_error:
  assumes "td R = Some (Vec ret)" and "td OLDVPRED = Some (Vec oldv)"
    and "forward fw \<theta> td TrainModel_vf = Some (Vec vp)" and "td clip_range = Some (Sc c)"
    and "length ret = n" and "length oldv = n" and "length vp = n" and "0 < n"
  shows "eval fw \<theta> td vf_loss =
     Some (Sc (1 / 2 * ((\<Sum>i<n. max ((vp ! i - ret ! i)\<^sup>2)
          ((oldv ! i + clip_by_value (vp ! i - oldv ! i) (- c) c - ret ! i)\<^sup>2)) / real n)))"
  using eval_vf_loss [OF assms] by (simp add: power2_eq_square)

lemma example_feeds:
  "example_td ADV = Some (Vec [1, - 1])"
  "example_td R = Some (Vec [1, 4])"
  "example_td OLDNEGLOGPAC = Some (Vec [0, 0])"
  "example_td OLDVPRED = Some (Vec [0, 0])"
  "example_td clip_range = Some (Sc (1 / 5))"
  "example_td LR = Some (Sc 1)"
  "forward example_framework \<theta> example_td neglogpac = Some (Vec [0, 0])"
  "forward example_framework \<theta> example_td TrainModel_vf = Some (Vec [1, 2])"
  "forward example_framework \<theta> example_td Pd_entropy = Some (Vec [1, 3])"
  by (simp_all add: example_defs graph_defs)

theorem vf_loss_clipped_squared_error_witness:
  "eval example_framework [] example_td vf_loss = Some (Sc (377 / 100))"
proof -
  have "eval example_framework [] example_td vf_loss =
     Some (Sc (1 / 2 * ((\<Sum>i<2. max (([1, 2] ! i - [1, 4] ! i)\<^sup>2)
          (([0, 0] ! i + clip_by_value ([1, 2] ! i - [0, 0] ! i) (- (1 / 5)) (1 / 5) - [1, 4] ! i)\<^sup>2))
            / real 2)))"
    using vf_loss_clipped_squared_error [OF example_feeds(2) example_feeds(4) example_feeds(8)
        example_feeds(5), of 2] by simp
  then show ?thesis
    by (simp add: numeral_2_eq_2 lessThan_Suc clip_by_value_def power2_eq_square)
qed

section \<open>The total loss\<close>

lemma example_pg_loss: "eval example_framework \<theta> example_td pg_loss = Some (Sc 0)"
proof -
  have "eval example_framework \<theta> example_td pg_loss =
           Some (Sc ((\<Sum>i<2. max (- ([1, - 1] ! i) * exp ([0, 0] ! i - [0, 0] ! i))
              (- ([1, - 1] ! i) * clip_by_value (exp ([0, 0] ! i - [0, 0] ! i)) (1 - 1 / 5) (1 + 1 / 5)))
                / real 2))"
    using eval_pg_loss [OF example_feeds(1) example_feeds(3) example_feeds(7) example_feeds(5), of 2]
    by simp
  then show ?thesis
    by (simp add: numeral_2_eq_2 lessThan_Suc clip_by_value_def)
qed

lemma example_vf_loss: "eval example_framework \<theta> example_td vf_loss = Some (Sc (377 / 100))"
proof -
  have "eval example_framework \<theta> example_td vf_loss =
     Some (Sc (5 / 10 * ((\<Sum>i<2. max (([1, 2] ! i - [1, 4] ! i) * ([1, 2] ! i - [1, 4] ! i))
          (([0, 0] ! i + clip_by_value ([1, 2] ! i - [0, 0] ! i) (- (1 / 5)) (1 / 5) - [1, 4] ! i) *
           ([0, 0] ! i + clip_by_value ([1, 2] ! i - [0, 0] ! i) (- (1 / 5)) (1 / 5) - [1, 4] ! i)))
            / real 2)))"
    using eval_vf_loss [OF example_feeds(2) example_feeds(4) example_feeds(8) example_feeds(5), of 2]
    by simp
  then show ?thesis
    by (simp add: numeral_2_eq_2 lessThan_Suc clip_by_value_def)
qed

lemma differentiated_grads:
  "differentiated (grads (Model_init MPI nba nbt ns ent_coef vf_coef mgn w comm mb)) =
     loss ent_coef vf_coef"
  by (cases mgn) (simp_all add: Model_init_def Let_def)

text \<open>
  Claim C3.  The tensor that \<open>Model.__init__\<close> differentiates is
  \<open>pg_loss - entropy * ent_coef + vf_loss * vf_coef\<close> and nothing else: under a feed where the
  two losses evaluate to \<open>p\<close> and \<open>v\<close> and the policy entropies of the batch are \<open>ent\<close>, it
  evaluates to \<open>p - ent_coef * mean ent + vf_coef * v\<close>.
\<close>

theorem total_loss_combination:
  assumes "eval fw \<theta> td pg_loss = Some (Sc p)" and "eval fw \<theta> td vf_loss = Some (Sc v)"
    and "forward fw \<theta> td Pd_entropy = Some (Vec ent)" and "ent \<noteq> []"
  shows "differentiated (grads (Model_init MPI nba nbt ns ent_coef vf_coef mgn w comm mb)) =
           Add (Sub pg_loss (Mul entropy (Const ent_coef))) (Mul vf_loss (Const vf_coef))
       \<and> eval fw \<theta> td entropy = Some (Sc (sum_list ent / real (length ent)))
       \<and> eval fw \<theta> td
           (differentiated (grads (Model_init MPI nba nbt ns ent_coef vf_coef mgn w comm mb))) =
           Some (Sc (p - ent_coef * (sum_list ent / real (length ent)) + vf_coef * v))"
proof -
  have e: "eval fw \<theta> td entropy = Some (Sc (sum_list ent / real (length ent)))"
    using assms(3,4) by (rule eval_entropy)
  have "eval fw \<theta> td (loss ent_coef vf_coef) =
      Some (Sc (p - sum_list ent / real (length ent) * ent_coef + v * vf_coef))"
    using assms(1) e assms(2) by (rule eval_loss)
  then show ?thesis
    using e by (simp add: differentiated_grads loss_def mult.commute)
qed

theorem total_loss_combination_witness:
  "eval example_framework [] example_td
     (differentiated (grads (Model_init True 2 2 1 (1 / 100) (1 / 2) (Some (1 / 2)) 1 None None))) =
   Some (Sc (373 / 200))"
proof -
  have ne: "[1, 3] \<noteq> ([] :: real list)" by simp
  have "sum_list [1, 3] / real (length [1, 3 :: real]) = (2 :: real)" by simp
  then show ?thesis
    using total_loss_combination [OF example_pg_loss [of "[]"] example_vf_loss [of "[]"]
        example_feeds(9) [of "[]"] ne, of True 2 2 1 "1 / 100" "1 / 2" "Some (1 / 2)" 1 None None]
    by (elim conjE) simp
qed

section \<open>Model.train: the advantages fed to the loss\<close>

lemma np_mean_nonempty:
  "xs \<noteq> [] \<Longrightarrow> np_mean xs = Some (sum_list xs / real (length xs))"
  by (simp add: np_mean_def)

lemma np_std_nonempty:
  assumes "xs \<noteq> []"
  shows "np_std xs =
     Some (sqrt (sum_list (map (\<lambda>x. (x - sum_list xs / real (length xs))\<^sup>2) xs) /
                 real (length xs)))"
  using assms by (simp add: np_std_def np_mean_def)

lemma sum_squares_dev_nonneg: "0 \<le> sum_list (map (\<lambda>x. (x - m)\<^sup>2) xs)" for m :: real
  by (rule sum_list_nonneg) auto

lemma std_nonneg: "0 \<le> sqrt (sum_list (map (\<lambda>x. (x - m)\<^sup>2) xs) / real (length xs))"
  by (simp add: sum_squares_dev_nonneg)

lemma divisor_nonzero: "0 \<le> sd \<Longrightarrow> sd + 1 / 10 ^ 8 \<noteq> 0" for sd :: real
  by simp

lemma sum_list_all_equal:
  "\<forall>b \<in> set xs. b = a \<Longrightarrow> sum_list xs = real (length xs) * (a :: real)"
  by (induction xs) (simp_all add: algebra_simps)

lemma sum_list_deviation_all_equal:
  "\<forall>b \<in> set xs. b = a \<Longrightarrow> sum_list (map (\<lambda>x. (x - (a :: real))\<^sup>2) xs) = 0"
  by (induction xs) simp_all

lemma sum_list_normalized:
  "sum_list (map (\<lambda>a. (a - m) / d) xs) = (sum_list xs - real (length xs) * m) / (d :: real)"
  by (induction xs) (simp_all add: diff_divide_distrib add_divide_distrib algebra_simps)

lemma train_td_map_feeds:
  assumes "np_sub returns values = Inr advs"
  shows "fed (train_td_map lr c obs returns masks actions values nlps states) R = Some (Vec returns)"
    and "fed (train_td_map lr c obs returns masks actions values nlps states) OLDVPRED =
           Some (Vec values)"
    and "fed (train_td_map lr c obs returns masks actions values nlps states) OLDNEGLOGPAC =
           Some (Vec nlps)"
    and "fed (train_td_map lr c obs returns masks actions values nlps states) clip_range =
           Some (Sc c)"
    and "fed (train_td_map lr c obs returns masks actions values nlps states) LR = Some (Sc lr)"
    and "fed (train_td_map lr c obs returns masks actions values nlps states) ADV =
           Some (Vec (case np_mean advs of
                        None \<Rightarrow> []
                      | Some m \<Rightarrow>
                          (case np_std advs of
                             None \<Rightarrow> []
                           | Some sd \<Rightarrow> map (\<lambda>a. (a - m) / (sd + 1 / 10 ^ 8)) advs)))"
  using assms
  by (simp_all add: train_td_map_def fed_def graph_defs Let_def split: option.split)

lemma train_td_map_ADV:
  assumes "length returns = length values" and "returns \<noteq> []"
    and "d = map2 (-) returns values"
    and "\<mu> = sum_list d / real (length d)"
    and "\<sigma> = sqrt (sum_list (map (\<lambda>a. (a - \<mu>)\<^sup>2) d) / real (length d))"
  shows "fed (train_td_map lr c obs returns masks actions values nlps states) ADV =
           Some (Vec (map (\<lambda>a. (a - \<mu>) / (\<sigma> + 1 / 10 ^ 8)) d))"
proof -
  have sub: "np_sub returns values = Inr d"
    using assms(1,3) by (simp add: np_sub_def)
  have ne: "d \<noteq> []" using assms(1,2,3) by (cases returns; cases "values") simp_all
  show ?thesis
    using train_td_map_feeds(6) [OF sub, of lr c obs masks actions nlps states]
    by (simp add: np_mean_nonempty [OF ne] np_std_nonempty [OF ne] assms(4,5))
qed

text \<open>
  Claim C9.  For a non-empty batch of returns and values of one length, \<open>Model.train\<close> feeds
  \<open>ADV\<close> the array \<open>(d - mean(d)) / (std(d) + 1e-8)\<close>, where \<open>d = returns - values\<close>
  element-wise, \<open>mean(d)\<close> is the sum of \<open>d\<close> over its length and \<open>std(d)\<close> the square root
  of the mean squared deviation from it.  The standard deviation is not negative, so the
  divisor is positive; when all advantages are equal the standard deviation is zero and
  the divisor is \<open>1e-8\<close>; and the fed values have mean zero.
\<close>

theorem advantages_normalized:
  assumes "length returns = length values" and "returns \<noteq> []"
    and "d = map2 (-) returns values"
    and "\<mu> = sum_list d / real (length d)"
    and "\<sigma> = sqrt (sum_list (map (\<lambda>a. (a - \<mu>)\<^sup>2) d) / real (length d))"
  shows "fed (train_td_map lr c obs returns masks actions values nlps states) ADV =
           Some (Vec (map (\<lambda>a. (a - \<mu>) / (\<sigma> + 1 / 10 ^ 8)) d))
       \<and> 0 \<le> \<sigma> \<and> 0 < \<sigma> + 1 / 10 ^ 8
       \<and> ((\<forall>a \<in> set d. a = hd d) \<longrightarrow> \<sigma> + 1 / 10 ^ 8 = 1 / 10 ^ 8)
       \<and> sum_list (map (\<lambda>a. (a - \<mu>) / (\<sigma> + 1 / 10 ^ 8)) d) / real (length d) = 0"
proof (intro conjI impI)
  show "fed (train_td_map lr c obs returns masks actions values nlps states) ADV =
           Some (Vec (map (\<lambda>a. (a - \<mu>) / (\<sigma> + 1 / 10 ^ 8)) d))"
    using assms by (rule train_td_map_ADV)
  have ne: "d \<noteq> []" using assms(1,2,3) by (cases returns; cases "values") simp_all
  then have n: "real (length d) \<noteq> 0" by simp
  show nonneg: "0 \<le> \<sigma>"
    unfolding assms(5) using sum_squares_dev_nonneg [of \<mu> d] by simp
  then show "0 < \<sigma> + 1 / 10 ^ 8" by simp
  have "sum_list d - real (length d) * \<mu> = 0"
    using n by (simp add: assms(4))
  then show "sum_list (map (\<lambda>a. (a - \<mu>) / (\<sigma> + 1 / 10 ^ 8)) d) / real (length d) = 0"
    by (simp add: sum_list_normalized)
  {
    assume eq: "\<forall>a \<in> set d. a = hd d"
    have "\<mu> = hd d"
      using sum_list_all_equal [OF eq] n by (simp add: assms(4))
    then have "sum_list (map (\<lambda>a. (a - \<mu>)\<^sup>2) d) = 0"
      using sum_list_deviation_all_equal [OF eq] by simp
    then have "\<sigma> = 0" by (simp add: assms(5))
    then show "\<sigma> + 1 / 10 ^ 8 = 1 / 10 ^ 8" by simp
  }
qed

lemma sqrt_4: "sqrt 4 = 2"
  by (rule real_sqrt_unique) simp_all

theorem advantages_normalized_witness:
  "fed (train_td_map 1 (1 / 5) () [3, 7] () () [1, 1] [0, 0] None) ADV =
     Some (Vec [- 2 / (2 + 1 / 10 ^ 8), 2 / (2 + 1 / 10 ^ 8)])
   \<and> fed (train_td_map 1 (1 / 5) () [5, 5] () () [2, 2] [0, 0] None) ADV =
     Some (Vec [0 / (1 / 10 ^ 8), 0 / (1 / 10 ^ 8)])"
proof -
  have l: "length [3, 7 :: real] = length [1, 1 :: real]" "[3, 7] \<noteq> ([] :: real list)"
    "length [5, 5 :: real] = length [2, 2 :: real]" "[5, 5] \<noteq> ([] :: real list)"
    by simp_all
  have d1: "[2, 6] = map2 (-) [3, 7] [1, 1 :: real]" by simp
  have m1: "(4 :: real) = sum_list [2, 6] / real (length [2, 6 :: real])" by simp
  have s1: "(2 :: real) = sqrt (sum_list (map (\<lambda>a. (a - 4)\<^sup>2) [2, 6]) / real (length [2, 6 :: real]))"
    by (simp add: sqrt_4)
  have d2: "[3, 3] = map2 (-) [5, 5] [2, 2 :: real]" by simp
  have m2: "(3 :: real) = sum_list [3, 3] / real (length [3, 3 :: real])" by simp
  have s2: "(0 :: real) = sqrt (sum_list (map (\<lambda>a. (a - 3)\<^sup>2) [3, 3]) / real (length [3, 3 :: real]))"
    by simp
  have e2: "\<forall>a \<in> set [3, 3 :: real]. a = hd [3, 3]" by simp
  note a = advantages_normalized [OF l(1) l(2) d1 m1 s1, of 1 "1 / 5" "()" "()" "()" "[0, 0]" None]
  note b = advantages_normalized [OF l(3) l(4) d2 m2 s2, of 1 "1 / 5" "()" "()" "()" "[0, 0]" None]
  have "(0 :: real) + 1 / 10 ^ 8 = 1 / 10 ^ 8" using b e2 by blast
  then show ?thesis using a b by simp
qed

text \<open>
  Claim C4, as the code has it.  The placeholder \<open>ADV\<close> is not fed the difference
  \<open>returns - values\<close> itself.
\<close>

theorem advantage_fed_counterexample:
  "fed (train_td_map 1 (1 / 5) () [1, 3] () () [0, 0] [0, 0] None) ADV \<noteq>
     Some (Vec [1 - 0, 3 - 0])"
  by (simp add: train_td_map_def fed_def np_sub_def graph_defs np_mean_def np_std_def)

text \<open>
  Claim C4, amended.  For a batch of returns and values of one length, \<open>Model.train\<close> feeds
  \<open>R\<close> the returns and \<open>OLDVPRED\<close> the values unchanged, and feeds \<open>ADV\<close> the difference
  \<open>returns - values\<close> after normalization: the element-wise difference is recovered from the
  fed advantage as \<open>mean + (std + 1e-8) * ADV\<close>, mean and standard deviation being those of
  the difference.
\<close>

theorem advantage_fed_is_normalized_difference:
  assumes "length returns = length values"
  shows "fed (train_td_map lr c obs returns masks actions values nlps states) R = Some (Vec returns)
       \<and> fed (train_td_map lr c obs returns masks actions values nlps states) OLDVPRED =
           Some (Vec values)
       \<and> (\<exists>adv. fed (train_td_map lr c obs returns masks actions values nlps states) ADV =
                  Some (Vec adv)
              \<and> length adv = length returns
              \<and> (\<forall>i < length returns. \<exists>m sd.
                    np_mean (map2 (-) returns values) = Some m \<and>
                    np_std (map2 (-) returns values) = Some sd \<and>
                    returns ! i - values ! i = m + (sd + 1 / 10 ^ 8) * adv ! i))"
proof -
  let ?d = "map2 (-) returns values"
  have sub: "np_sub returns values = Inr ?d" using assms by (simp add: np_sub_def)
  note f = train_td_map_feeds [OF sub, of lr c obs masks actions nlps states]
  have "\<exists>adv. fed (train_td_map lr c obs returns masks actions values nlps states) ADV =
                  Some (Vec adv)
              \<and> length adv = length returns
              \<and> (\<forall>i < length returns. \<exists>m sd.
                    np_mean ?d = Some m \<and> np_std ?d = Some sd \<and>
                    returns ! i - values ! i = m + (sd + 1 / 10 ^ 8) * adv ! i)"
  proof (cases "returns = []")
    case True
    then show ?thesis using f(6) assms by (simp add: np_mean_def)
  next
    case False
    then have ne: "?d \<noteq> []" using assms by (cases returns; cases "values") simp_all
    let ?m = "sum_list ?d / real (length ?d)"
    let ?s = "sqrt (sum_list (map (\<lambda>x. (x - ?m)\<^sup>2) ?d) / real (length ?d))"
    let ?adv = "map (\<lambda>a. (a - ?m) / (?s + 1 / 10 ^ 8)) ?d"
    have m: "np_mean ?d = Some ?m" using ne by (rule np_mean_nonempty)
    have s: "np_std ?d = Some ?s" using ne by (rule np_std_nonempty)
    have "0 \<le> ?s" by (rule std_nonneg)
    then have pos: "?s + 1 / 10 ^ 8 \<noteq> 0" by (rule divisor_nonzero)
    have a: "fed (train_td_map lr c obs returns masks actions values nlps states) ADV =
        Some (Vec ?adv)"
      using f(6) by (simp add: m s)
    have len: "length ?adv = length returns" using assms by simp
    have rec: "\<forall>i < length returns. \<exists>m sd.
        np_mean ?d = Some m \<and> np_std ?d = Some sd \<and>
        returns ! i - values ! i = m + (sd + 1 / 10 ^ 8) * ?adv ! i"
    proof (intro allI impI)
      fix i assume i: "i < length returns"
      have "returns ! i - values ! i = ?m + (?s + 1 / 10 ^ 8) * ?adv ! i"
        using i assms pos by simp
      then show "\<exists>m sd. np_mean ?d = Some m \<and> np_std ?d = Some sd \<and>
          returns ! i - values ! i = m + (sd + 1 / 10 ^ 8) * ?adv ! i"
        using m s by blast
    qed
    show ?thesis using a len rec by (intro exI [of _ ?adv] conjI)
  qed
  then show ?thesis using f(1,2) by simp
qed

theorem advantage_fed_is_normalized_difference_witness:
  "fed (train_td_map 1 (1 / 5) () [1, 3] () () [0, 0] [0, 0] None) R = Some (Vec [1, 3])
   \<and> fed (train_td_map 1 (1 / 5) () [1, 3] () () [0, 0] [0, 0] None) OLDVPRED =
        Some (Vec [0, 0])
   \<and> (\<exists>adv. fed (train_td_map 1 (1 / 5) () [1, 3] () () [0, 0] [0, 0] None) ADV =
              Some (Vec adv)
          \<and> length adv = length [1, 3 :: real]
          \<and> (\<forall>i < length [1, 3 :: real]. \<exists>m sd.
                np_mean (map2 (-) [1, 3] [0, 0]) = Some m \<and>
                np_std (map2 (-) [1, 3] [0, 0]) = Some sd \<and>
                [1, 3] ! i - [0, 0] ! i = m + (sd + 1 / 10 ^ 8) * adv ! i))"
proof -
  have h: "length [1, 3 :: real] = length [0, 0 :: real]" by simp
  show ?thesis
    by (rule advantage_fed_is_normalized_difference [OF h])
qed

section \<open>Model.train: running the statistics and the update\<close>

lemma sess_run_stats:
  assumes "eval fw \<theta> td pg_loss = Some v1" and "eval fw \<theta> td vf_loss = Some v2"
    and "eval fw \<theta> td entropy = Some v3" and "eval fw \<theta> td approxkl = Some v4"
    and "eval fw \<theta> td clipfrac = Some v5" and "eval fw \<theta> td LR = Some (Sc l)"
  shows "sess_run fw \<theta>
           (map Tensor (stats_list (Model_init MPI nba nbt ns ec vc mgn w comm mb)) @
            [Op (train_op (Model_init MPI nba nbt ns ec vc mgn w comm mb))]) td =
         Some ([Value v1, Value v2, Value v3, Value v4, Value v5, NoValue],
               map_option (\<lambda>gv. adam fw l (1 / 10 ^ 5) gv \<theta>)
                 (eval_grads fw \<theta> td (grads (Model_init MPI nba nbt ns ec vc mgn w comm mb))))"
  using assms by (simp add: sess_run_def Model_init_def Let_def)

lemma train_td_map_Inr:
  assumes "train_td_map lr c obs returns masks actions values nlps states = Inr td"
  shows "td R = Some (Vec returns)" and "td OLDVPRED = Some (Vec values)"
    and "td OLDNEGLOGPAC = Some (Vec nlps)" and "td clip_range = Some (Sc c)"
    and "td LR = Some (Sc lr)"
    and "\<exists>advs adv. np_sub returns values = Inr advs \<and> td ADV = Some (Vec adv) \<and>
           (advs \<noteq> [] \<longrightarrow> length adv = length advs)"
proof -
  obtain advs where sub: "np_sub returns values = Inr advs"
    using assms by (cases "np_sub returns values") (simp_all add: train_td_map_def)
  note f = train_td_map_feeds [OF sub, of lr c obs masks actions nlps states]
  show "td R = Some (Vec returns)" using f(1) assms by (simp add: fed_def)
  show "td OLDVPRED = Some (Vec values)" using f(2) assms by (simp add: fed_def)
  show "td OLDNEGLOGPAC = Some (Vec nlps)" using f(3) assms by (simp add: fed_def)
  show "td clip_range = Some (Sc c)" using f(4) assms by (simp add: fed_def)
  show "td LR = Some (Sc lr)" using f(5) assms by (simp add: fed_def)
  have "advs \<noteq> [] \<longrightarrow>
      length (case np_mean advs of
                None \<Rightarrow> []
              | Some m \<Rightarrow>
                  (case np_std advs of
                     None \<Rightarrow> []
                   | Some sd \<Rightarrow> map (\<lambda>a. (a - m) / (sd + 1 / 10 ^ 8)) advs)) = length advs"
    by (simp add: np_mean_def np_std_def)
  then show "\<exists>advs adv. np_sub returns values = Inr advs \<and> td ADV = Some (Vec adv) \<and>
           (advs \<noteq> [] \<longrightarrow> length adv = length advs)"
    using f(6) sub assms by (auto simp: fed_def)
qed

lemma np_sub_length:
  assumes "np_sub xs ys = Inr zs" and "length xs = n" and "length ys = n"
  shows "length zs = n"
  using assms by (auto simp: np_sub_def)

lemma train_succeeds:
  assumes td: "train_td_map lr c obs returns masks actions values nlps states = Inr td"
    and lens: "length returns = n" "length values = n" "length nlps = n" "0 < n"
    and nlp: "forward fw \<theta> td neglogpac = Some (Vec nlp)" "length nlp = n"
    and vp: "forward fw \<theta> td TrainModel_vf = Some (Vec vp)" "length vp = n"
    and ent: "forward fw \<theta> td Pd_entropy = Some (Vec ent)" "ent \<noteq> []"
  shows "\<exists>p v e k.
           eval fw \<theta> td pg_loss = Some (Sc p) \<and> eval fw \<theta> td vf_loss = Some (Sc v) \<and>
           eval fw \<theta> td entropy = Some (Sc e) \<and> eval fw \<theta> td clipfrac = Some (Sc k) \<and>
           train (Model_init MPI nba nbt ns ec vc mgn w comm mb) fw \<theta> lr c obs returns masks
             actions values nlps states =
           Returns
             ([Value (Sc p), Value (Sc v), Value (Sc e),
               Value (Sc (5 / 10 * ((\<Sum>i<n. (nlp ! i - nlps ! i) * (nlp ! i - nlps ! i)) / real n))),
               Value (Sc k)],
              map_option (\<lambda>gv. adam fw lr (1 / 10 ^ 5) gv \<theta>)
                (eval_grads fw \<theta> td (grads (Model_init MPI nba nbt ns ec vc mgn w comm mb))))"
proof -
  note f = train_td_map_Inr [OF td]
  obtain advs adv where sub: "np_sub returns values = Inr advs"
    and adv: "td ADV = Some (Vec adv)"
    and la0: "advs \<noteq> [] \<longrightarrow> length adv = length advs"
    using f(6) by blast
  have "length advs = n" using np_sub_length [OF sub lens(1,2)] .
  then have la: "length adv = n" using la0 lens(4) by auto
  obtain p where e1: "eval fw \<theta> td pg_loss = Some (Sc p)"
    using eval_pg_loss [OF adv f(3) nlp(1) f(4) la lens(3) nlp(2) lens(4)] by blast
  obtain v where e2: "eval fw \<theta> td vf_loss = Some (Sc v)"
    using eval_vf_loss [OF f(1) f(2) vp(1) f(4) lens(1) lens(2) vp(2) lens(4)] by blast
  note e3 = eval_entropy [OF ent]
  note e4 = eval_approxkl [OF f(3) nlp(1) lens(3) nlp(2) lens(4)]
  obtain k where e5: "eval fw \<theta> td clipfrac = Some (Sc k)"
    using eval_clipfrac [OF f(3) nlp(1) f(4) lens(3) nlp(2) lens(4)] by blast
  have e6: "eval fw \<theta> td LR = Some (Sc lr)" using f(5) by (simp add: LR_def)
  note r = sess_run_stats [OF e1 e2 e3 e4 e5 e6, of MPI nba nbt ns ec vc mgn w comm mb]
  have "train (Model_init MPI nba nbt ns ec vc mgn w comm mb) fw \<theta> lr c obs returns masks
             actions values nlps states =
        Returns
          ([Value (Sc p), Value (Sc v), Value (Sc (sum_list ent / real (length ent))),
            Value (Sc (5 / 10 * ((\<Sum>i<n. (nlp ! i - nlps ! i) * (nlp ! i - nlps ! i)) / real n))),
            Value (Sc k)],
           map_option (\<lambda>gv. adam fw lr (1 / 10 ^ 5) gv \<theta>)
             (eval_grads fw \<theta> td (grads (Model_init MPI nba nbt ns ec vc mgn w comm mb))))"
    unfolding train_def td using r by simp
  then show ?thesis using e1 e2 e3 e5 by blast
qed

lemma approxkl_not_in_loss: "approxkl \<notin> subtensors (loss ec vc)"
  by (simp add: graph_defs)

text \<open>
  Claim C6.  \<open>approxkl\<close> evaluates to one half of the mean over the batch of
  \<open>(neglogpac - OLDNEGLOGPAC)^2\<close>; it does not occur in the tensor that is differentiated;
  and a call of \<open>Model.train\<close> on a batch of \<open>n > 0\<close> samples returns five statistics, the
  values of \<open>pg_loss\<close>, \<open>vf_loss\<close>, \<open>entropy\<close>, \<open>approxkl\<close> and \<open>clipfrac\<close> in the order of
  \<open>loss_names\<close>.
\<close>

theorem approxkl_diagnostic:
  assumes "train_td_map lr c obs returns masks actions values nlps states = Inr td"
    and "length returns = n" and "length values = n" and "length nlps = n" and "0 < n"
    and "forward fw \<theta> td neglogpac = Some (Vec nlp)" and "length nlp = n"
    and "forward fw \<theta> td TrainModel_vf = Some (Vec vp)" and "length vp = n"
    and "forward fw \<theta> td Pd_entropy = Some (Vec ent)" and "ent \<noteq> []"
  shows "eval fw \<theta> td approxkl =
           Some (Sc (1 / 2 * ((\<Sum>i<n. (nlp ! i - nlps ! i)\<^sup>2) / real n)))
       \<and> approxkl \<notin> subtensors
           (differentiated (grads (Model_init MPI nba nbt ns ec vc mgn w comm mb)))
       \<and> loss_names (Model_init MPI nba nbt ns ec vc mgn w comm mb) =
           [''policy_loss'', ''value_loss'', ''policy_entropy'', ''approxkl'', ''clipfrac'']
       \<and> (\<exists>p v e k.
             eval fw \<theta> td pg_loss = Some (Sc p) \<and> eval fw \<theta> td vf_loss = Some (Sc v) \<and>
             eval fw \<theta> td entropy = Some (Sc e) \<and> eval fw \<theta> td clipfrac = Some (Sc k) \<and>
             train (Model_init MPI nba nbt ns ec vc mgn w comm mb) fw \<theta> lr c obs returns
               masks actions values nlps states =
             Returns
               ([Value (Sc p), Value (Sc v), Value (Sc e),
                 Value (Sc (1 / 2 * ((\<Sum>i<n. (nlp ! i - nlps ! i)\<^sup>2) / real n))),
                 Value (Sc k)],
                map_option (\<lambda>gv. adam fw lr (1 / 10 ^ 5) gv \<theta>)
                  (eval_grads fw \<theta> td
                     (grads (Model_init MPI nba nbt ns ec vc mgn w comm mb)))))"
proof -
  note f = train_td_map_Inr [OF assms(1)]
  have a: "eval fw \<theta> td approxkl =
           Some (Sc (1 / 2 * ((\<Sum>i<n. (nlp ! i - nlps ! i)\<^sup>2) / real n)))"
    using eval_approxkl [OF f(3) assms(6) assms(4) assms(7) assms(5)]
    by (simp add: power2_eq_square)
  have b: "approxkl \<notin> subtensors
           (differentiated (grads (Model_init MPI nba nbt ns ec vc mgn w comm mb)))"
    by (simp only: differentiated_grads approxkl_not_in_loss not_False_eq_True)
  have c: "loss_names (Model_init MPI nba nbt ns ec vc mgn w comm mb) =
           [''policy_loss'', ''value_loss'', ''policy_entropy'', ''approxkl'', ''clipfrac'']"
    by (simp add: Model_init_def Let_def)
  obtain p v e k where
    "eval fw \<theta> td pg_loss = Some (Sc p)" "eval fw \<theta> td vf_loss = Some (Sc v)"
    "eval fw \<theta> td entropy = Some (Sc e)" "eval fw \<theta> td clipfrac = Some (Sc k)"
    "train (Model_init MPI nba nbt ns ec vc mgn w comm mb) fw \<theta> lr c obs returns masks
             actions values nlps states =
           Returns
             ([Value (Sc p), Value (Sc v), Value (Sc e),
               Value (Sc (5 / 10 * ((\<Sum>i<n. (nlp ! i - nlps ! i) * (nlp ! i - nlps ! i)) / real n))),
               Value (Sc k)],
              map_option (\<lambda>gv. adam fw lr (1 / 10 ^ 5) gv \<theta>)
                (eval_grads fw \<theta> td (grads (Model_init MPI nba nbt ns ec vc mgn w comm mb))))"
    using train_succeeds [OF assms, of MPI nba nbt ns ec vc mgn w comm mb] by blast
  then have d: "\<exists>p v e k.
             eval fw \<theta> td pg_loss = Some (Sc p) \<and> eval fw \<theta> td vf_loss = Some (Sc v) \<and>
             eval fw \<theta> td entropy = Some (Sc e) \<and> eval fw \<theta> td clipfrac = Some (Sc k) \<and>
             train (Model_init MPI nba nbt ns ec vc mgn w comm mb) fw \<theta> lr c obs returns
               masks actions values nlps states =
             Returns
               ([Value (Sc p), Value (Sc v), Value (Sc e),
                 Value (Sc (1 / 2 * ((\<Sum>i<n. (nlp ! i - nlps ! i)\<^sup>2) / real n))),
                 Value (Sc k)],
                map_option (\<lambda>gv. adam fw lr (1 / 10 ^ 5) gv \<theta>)
                  (eval_grads fw \<theta> td
                     (grads (Model_init MPI nba nbt ns ec vc mgn w comm mb))))"
    by (intro exI [of _ p] exI [of _ v] exI [of _ e] exI [of _ k]) (simp add: power2_eq_square)
  show ?thesis using a b c d by blast
qed

lemma example_forward_any:
  "forward example_framework \<theta> td neglogpac = Some (Vec [0, 0])"
  "forward example_framework \<theta> td TrainModel_vf = Some (Vec [1, 2])"
  "forward example_framework \<theta> td Pd_entropy = Some (Vec [1, 3])"
  by (simp_all add: example_defs graph_defs)

theorem approxkl_diagnostic_witness:
  "\<exists>p v e k s.
     train (Model_init False 2 2 1 (1 / 100) (1 / 2) None 1 None None) example_framework
       [[0, 0]] 1 (1 / 5) () [1, 4] () () [0, 0] [0, 0] None =
     Returns ([Value (Sc p), Value (Sc v), Value (Sc e), Value (Sc 0), Value (Sc k)], s)"
proof -
  obtain td :: "unit td_map"
    where td: "train_td_map 1 (1 / 5) () [1, 4] () () [0, 0] [0, 0] None = Inr td"
    by (simp add: train_td_map_def np_sub_def)
  have l: "length [1, 4 :: real] = 2" "length [0, 0 :: real] = 2" "(0 :: nat) < 2"
    "length [1, 2 :: real] = 2"
    by simp_all
  have ne: "[1, 3] \<noteq> ([] :: real list)" by simp
  have z: "1 / 2 * ((\<Sum>i<2. ([0, 0] ! i - [0, 0] ! i :: real)\<^sup>2) / real 2) = 0"
    by (simp add: numeral_2_eq_2 lessThan_Suc)
  show ?thesis
    using approxkl_diagnostic [where MPI = False and nba = 2 and nbt = 2 and ns = 1
        and ec = "1 / 100" and vc = "1 / 2" and mgn = None and w = 1 and comm = None
        and mb = None and \<theta> = "[[0, 0]]",
        OF td l(1) l(2) l(2) l(3) example_forward_any(1) l(2)
        example_forward_any(2) l(4) example_forward_any(3) ne]
    unfolding z by blast
qed

section \<open>Gradient clipping\<close>

lemma sum_list_scaled_squares:
  "sum_list (map (\<lambda>x. x * s * (x * s)) t) = s * s * sum_list (map (\<lambda>x. x * x) t)"
  for s :: real
  by (induction t) (simp_all add: algebra_simps)

lemma sum_list_scaled_tensors:
  "sum_list (map (\<lambda>t. sum_list (map (\<lambda>x. x * s * (x * s)) t)) ts) =
     s * s * sum_list (map (\<lambda>t. sum_list (map (\<lambda>x. x * x) t)) ts)"
  for s :: real
  by (induction ts) (simp_all add: sum_list_scaled_squares ring_distribs)

lemma global_norm_scaled: "global_norm (map (map (\<lambda>x. x * s)) ts) = \<bar>s\<bar> * global_norm ts"
proof -
  have "sqrt (s * s * sum_list (map (\<lambda>t. sum_list (map (\<lambda>x. x * x) t)) ts)) =
        \<bar>s\<bar> * sqrt (sum_list (map (\<lambda>t. sum_list (map (\<lambda>x. x * x) t)) ts))"
    by (simp add: real_sqrt_mult)
  then show ?thesis
    by (simp add: global_norm_def comp_def sum_list_scaled_tensors)
qed

lemma sum_squares_nonneg: "0 \<le> sum_list (map (\<lambda>x. x * x) t)" for t :: "real list"
  by (rule sum_list_nonneg) auto

lemma global_norm_nonneg: "0 \<le> global_norm ts"
proof -
  have "0 \<le> sum_list (map (\<lambda>t. sum_list (map (\<lambda>x. x * x) t)) ts)"
    by (rule sum_list_nonneg) (auto simp: sum_squares_nonneg)
  then show ?thesis by (simp add: global_norm_def)
qed

text \<open>
  For a positive bound the factor is \<open>c / max(global_norm, c)\<close>; for a negative bound it
  is 1, so that the gradients pass unchanged.
\<close>

lemma clip_scale_positive:
  assumes "0 < c" and "0 \<le> g"
  shows "clip_scale g c = c / max g c"
proof (cases "g = 0")
  case True
  then show ?thesis using assms by (simp add: clip_scale_def)
next
  case False
  then have gpos: "0 < g" using assms by simp
  show ?thesis
  proof (cases "g \<le> c")
    case True
    then have "1 / c \<le> 1 / g" using gpos by (simp add: frac_le)
    then have "min (1 / g) (1 / c) = 1 / c" by (simp add: min_def)
    then show ?thesis using assms gpos True by (simp add: clip_scale_def max_def)
  next
    case False
    then have "1 / g \<le> 1 / c" using assms by (simp add: frac_le)
    then have "min (1 / g) (1 / c) = 1 / g" by (simp add: min_def)
    then show ?thesis using assms gpos False by (simp add: clip_scale_def max_def)
  qed
qed

lemma clip_scale_negative:
  assumes "c < 0" and "0 \<le> g"
  shows "clip_scale g c = 1"
proof (cases "g = 0")
  case True
  then show ?thesis by (simp add: clip_scale_def)
next
  case False
  then have gpos: "0 < g" using assms by simp
  have "1 / c < 0" using assms by simp
  moreover have "0 < 1 / g" using gpos by simp
  ultimately have "1 / c \<le> 1 / g" by linarith
  then have "min (1 / g) (1 / c) = 1 / c" by (rule min_absorb2)
  then show ?thesis using assms gpos by (simp add: clip_scale_def)
qed

lemma clip_by_global_norm_positive:
  assumes "0 < c"
  shows "clip_by_global_norm ts c =
           Some (map (map (\<lambda>x. x * c / max (global_norm ts) c)) ts, global_norm ts)"
  using assms clip_scale_positive [OF assms global_norm_nonneg, of ts]
  by (simp add: clip_by_global_norm_def Let_def)

lemma clip_by_global_norm_negative:
  assumes "c < 0"
  shows "clip_by_global_norm ts c = Some (ts, global_norm ts)"
proof -
  have "map (map (\<lambda>x. x * (1 :: real))) ts = ts"
    by (induction ts) (simp_all add: map_idI)
  then show ?thesis
    using assms clip_scale_negative [OF assms global_norm_nonneg, of ts]
    by (simp add: clip_by_global_norm_def Let_def)
qed

lemma clipped_norm_le:
  assumes "0 < c"
  shows "global_norm (map (map (\<lambda>x. x * c / max (global_norm ts) c)) ts) \<le> c"
proof -
  let ?g = "global_norm ts"
  let ?s = "c / max ?g c"
  have mpos: "0 < max ?g c" using assms by (simp add: max_def)
  have spos: "0 \<le> ?s" using assms mpos by simp
  have "map (map (\<lambda>x. x * c / max ?g c)) ts = map (map (\<lambda>x. x * ?s)) ts"
    by simp
  then have "global_norm (map (map (\<lambda>x. x * c / max ?g c)) ts) = ?s * ?g"
    using spos by (simp only: global_norm_scaled abs_of_nonneg)
  also have "\<dots> = c * (?g / max ?g c)" by simp
  also have "\<dots> \<le> c * 1"
  proof (rule mult_left_mono)
    show "?g / max ?g c \<le> 1" using mpos by (simp add: divide_le_eq)
    show "0 \<le> c" using assms by simp
  qed
  finally show ?thesis by simp
qed

text \<open>
  Claim C7.  The gradient list that the train operation applies is the clipped one exactly
  when \<open>max_grad_norm\<close> is not \<open>None\<close>: the gradients of the total loss then pass through
  \<open>tf.clip_by_global_norm\<close> with that bound, which for a positive bound scales every
  gradient by \<open>max_grad_norm / max(global_norm, max_grad_norm)\<close> and so bounds the global
  norm by it; with \<open>None\<close> the gradients of the total loss are applied as they are.  Running
  the train operation hands these gradient values to the optimizer.
\<close>

theorem gradients_clipped_iff_max_grad_norm:
  shows "grads (Model_init MPI nba nbt ns ec vc mgn w comm mb) =
           (case mgn of
              None \<Rightarrow> ComputeGradients (loss ec vc) ''ppo2_model''
            | Some m \<Rightarrow> ClipByGlobalNorm (ComputeGradients (loss ec vc) ''ppo2_model'') m)
       \<and> ((\<exists>m. grads (Model_init MPI nba nbt ns ec vc mgn w comm mb) =
                 ClipByGlobalNorm (ComputeGradients (loss ec vc) ''ppo2_model'') m) \<longleftrightarrow>
            mgn \<noteq> None)
       \<and> train_op (Model_init MPI nba nbt ns ec vc mgn w comm mb) =
           ApplyGradients (trainer (Model_init MPI nba nbt ns ec vc mgn w comm mb))
             (grads (Model_init MPI nba nbt ns ec vc mgn w comm mb))
       \<and> eval_grads fw \<theta> td (grads (Model_init MPI nba nbt ns ec vc mgn w comm mb)) =
           (case mgn of
              None \<Rightarrow> Some (gradients fw \<theta> td (loss ec vc) ''ppo2_model'')
            | Some m \<Rightarrow>
                map_option fst
                  (clip_by_global_norm (gradients fw \<theta> td (loss ec vc) ''ppo2_model'') m))
       \<and> (\<forall>m. mgn = Some m \<and> 0 < m \<longrightarrow>
            eval_grads fw \<theta> td (grads (Model_init MPI nba nbt ns ec vc mgn w comm mb)) =
              Some (map (map (\<lambda>x. x * m /
                       max (global_norm (gradients fw \<theta> td (loss ec vc) ''ppo2_model'')) m))
                     (gradients fw \<theta> td (loss ec vc) ''ppo2_model'')) \<and>
            global_norm
              (map (map (\<lambda>x. x * m /
                       max (global_norm (gradients fw \<theta> td (loss ec vc) ''ppo2_model'')) m))
                 (gradients fw \<theta> td (loss ec vc) ''ppo2_model'')) \<le> m)
       \<and> (\<forall>l. eval fw \<theta> td LR = Some (Sc l) \<longrightarrow>
            sess_run fw \<theta> [Op (train_op (Model_init MPI nba nbt ns ec vc mgn w comm mb))] td =
            Some ([NoValue],
                  map_option (\<lambda>gv. adam fw l (1 / 10 ^ 5) gv \<theta>)
                    (eval_grads fw \<theta> td
                       (grads (Model_init MPI nba nbt ns ec vc mgn w comm mb)))))"
proof (cases mgn)
  case None
  then show ?thesis
    by (simp add: Model_init_def Let_def sess_run_def)
next
  case (Some m)
  have "0 < m \<Longrightarrow>
      clip_by_global_norm (gradients fw \<theta> td (loss ec vc) ''ppo2_model'') m =
        Some (map (map (\<lambda>x. x * m /
                max (global_norm (gradients fw \<theta> td (loss ec vc) ''ppo2_model'')) m))
              (gradients fw \<theta> td (loss ec vc) ''ppo2_model''),
              global_norm (gradients fw \<theta> td (loss ec vc) ''ppo2_model''))"
    by (rule clip_by_global_norm_positive)
  moreover have "0 < m \<Longrightarrow>
      global_norm
        (map (map (\<lambda>x. x * m /
                max (global_norm (gradients fw \<theta> td (loss ec vc) ''ppo2_model'')) m))
           (gradients fw \<theta> td (loss ec vc) ''ppo2_model'')) \<le> m"
    by (rule clipped_norm_le)
  ultimately show ?thesis
    using Some by (simp add: Model_init_def Let_def sess_run_def)
qed

lemma global_norm_3_4: "global_norm [[3, 4]] = 5"
proof -
  have "sqrt 25 = 5" by (rule real_sqrt_unique) simp_all
  then show ?thesis by (simp add: global_norm_def)
qed

theorem gradients_clipped_iff_max_grad_norm_witness:
  "eval_grads example_framework [[0, 0]] [R \<mapsto> Vec [3, 4], LR \<mapsto> Sc 1]
     (grads (Model_init False 2 2 1 (1 / 100) (1 / 2) (Some (1 / 2)) 1 None None)) =
     Some [[3 / 10, 2 / 5]]
   \<and> global_norm [[3 / 10, 2 / 5]] \<le> 1 / 2
   \<and> eval_grads example_framework [[0, 0]] [R \<mapsto> Vec [3, 4], LR \<mapsto> Sc 1]
        (grads (Model_init False 2 2 1 (1 / 100) (1 / 2) None 1 None None)) = Some [[3, 4]]
   \<and> eval_grads example_framework [[0, 0]] [R \<mapsto> Vec [3, 4], LR \<mapsto> Sc 1]
        (grads (Model_init False 2 2 1 (1 / 100) (1 / 2) (Some (- (1 / 2))) 1 None None)) =
      Some [[3, 4]]
   \<and> sess_run example_framework [[0, 0]]
        [Op (train_op (Model_init False 2 2 1 (1 / 100) (1 / 2) (Some (1 / 2)) 1 None None))]
        [R \<mapsto> Vec [3, 4], LR \<mapsto> Sc 1] =
      Some ([NoValue], Some [[- (3 / 10), - (2 / 5)]])"
proof -
  let ?td = "[R \<mapsto> Vec [3, 4], LR \<mapsto> Sc 1] :: unit td_map"
  have g: "gradients example_framework [[0, 0]] ?td (loss (1 / 100) (1 / 2)) ''ppo2_model'' =
      [[3, 4]]"
    by (simp add: example_defs graph_defs)
  have lr: "eval example_framework [[0, 0]] ?td LR = Some (Sc 1)"
    by (simp add: graph_defs)
  have half: "(0 :: real) < 1 / 2" by simp
  note c = gradients_clipped_iff_max_grad_norm [where MPI = False and nba = 2 and nbt = 2
      and ns = 1 and ec = "1 / 100" and vc = "1 / 2" and mgn = "Some (1 / 2)" and w = 1
      and comm = None and mb = None and fw = example_framework and \<theta> = "[[0, 0]]"
      and td = ?td]
  note u = gradients_clipped_iff_max_grad_norm [where MPI = False and nba = 2 and nbt = 2
      and ns = 1 and ec = "1 / 100" and vc = "1 / 2" and mgn = None and w = 1
      and comm = None and mb = None and fw = example_framework and \<theta> = "[[0, 0]]"
      and td = ?td]
  note n = gradients_clipped_iff_max_grad_norm [where MPI = False and nba = 2 and nbt = 2
      and ns = 1 and ec = "1 / 100" and vc = "1 / 2" and mgn = "Some (- (1 / 2))" and w = 1
      and comm = None and mb = None and fw = example_framework and \<theta> = "[[0, 0]]"
      and td = ?td]
  have cm: "map (map (\<lambda>x. x * (1 / 2) / max (global_norm [[3, 4]]) (1 / 2))) [[3, 4]] =
      [[3 / 10, 2 / 5 :: real]]"
    by (simp add: global_norm_3_4)
  have "eval_grads example_framework [[0, 0]] ?td
     (grads (Model_init False 2 2 1 (1 / 100) (1 / 2) (Some (1 / 2)) 1 None None)) =
      Some (map (map (\<lambda>x. x * (1 / 2) / max (global_norm [[3, 4]]) (1 / 2))) [[3, 4]])
     \<and> global_norm (map (map (\<lambda>x. x * (1 / 2) / max (global_norm [[3, 4]]) (1 / 2))) [[3, 4]])
        \<le> 1 / 2"
    using c half unfolding g by blast
  then have e: "eval_grads example_framework [[0, 0]] ?td
     (grads (Model_init False 2 2 1 (1 / 100) (1 / 2) (Some (1 / 2)) 1 None None)) =
     Some [[3 / 10, 2 / 5]]"
    and b: "global_norm [[3 / 10, 2 / 5]] \<le> 1 / 2"
    unfolding cm by simp_all
  have v: "eval_grads example_framework [[0, 0]] ?td
        (grads (Model_init False 2 2 1 (1 / 100) (1 / 2) None 1 None None)) = Some [[3, 4]]"
    using u by (simp add: g)
  have neg: "- (1 / 2) < (0 :: real)" by simp
  have "eval_grads example_framework [[0, 0]] ?td
        (grads (Model_init False 2 2 1 (1 / 100) (1 / 2) (Some (- (1 / 2))) 1 None None)) =
        map_option fst (clip_by_global_norm [[3, 4]] (- (1 / 2)))"
    using n by (simp add: g)
  then have m: "eval_grads example_framework [[0, 0]] ?td
        (grads (Model_init False 2 2 1 (1 / 100) (1 / 2) (Some (- (1 / 2))) 1 None None)) =
        Some [[3, 4]]"
    by (simp add: clip_by_global_norm_negative [OF neg])
  have "sess_run example_framework [[0, 0]]
        [Op (train_op (Model_init False 2 2 1 (1 / 100) (1 / 2) (Some (1 / 2)) 1 None None))] ?td =
      Some ([NoValue],
            map_option (\<lambda>gv. adam example_framework 1 (1 / 10 ^ 5) gv [[0, 0]])
              (eval_grads example_framework [[0, 0]] ?td
                 (grads (Model_init False 2 2 1 (1 / 100) (1 / 2) (Some (1 / 2)) 1 None None))))"
    using c lr by blast
  then have r: "sess_run example_framework [[0, 0]]
        [Op (train_op (Model_init False 2 2 1 (1 / 100) (1 / 2) (Some (1 / 2)) 1 None None))] ?td =
      Some ([NoValue], Some [[- (3 / 10), - (2 / 5)]])"
    unfolding e by (simp add: example_defs)
  show ?thesis using e b v m r by blast
qed

section \<open>The optimizer under MPI\<close>

lemma example_train_state:
  assumes "length returns = 2" and "length values = 2" and "length nlps = 2"
  shows "\<exists>vs. train (Model_init MPI nba nbt ns ec vc None w comm mb) example_framework \<theta> lr c ()
                returns () () values nlps None =
              Returns (vs, Some (example_adam lr (1 / 10 ^ 5) [returns] \<theta>))"
proof -
  obtain td :: "unit td_map"
    where td: "train_td_map lr c () returns () () values nlps None = Inr td"
    using assms by (simp add: train_td_map_def np_sub_def)
  have l: "(0 :: nat) < 2" "length [0, 0 :: real] = 2" "length [1, 2 :: real] = 2"
    "[1, 3] \<noteq> ([] :: real list)"
    by simp_all
  have "td (Placeholder ''R'' [None]) = Some (Vec returns)"
    using train_td_map_Inr(1) [OF td] by (simp add: R_def)
  then have g: "eval_grads example_framework \<theta> td
      (grads (Model_init MPI nba nbt ns ec vc None w comm mb)) = Some [returns]"
    by (simp add: Model_init_def Let_def example_framework_def example_gradients_def)
  obtain p v e k where
    "train (Model_init MPI nba nbt ns ec vc None w comm mb) example_framework \<theta> lr c ()
        returns () () values nlps None =
     Returns
       ([Value (Sc p), Value (Sc v), Value (Sc e),
         Value (Sc (5 / 10 * ((\<Sum>i<2. ([0, 0] ! i - nlps ! i) * ([0, 0] ! i - nlps ! i)) / real 2))),
         Value (Sc k)],
        map_option (\<lambda>gv. adam example_framework lr (1 / 10 ^ 5) gv \<theta>)
          (eval_grads example_framework \<theta> td
             (grads (Model_init MPI nba nbt ns ec vc None w comm mb))))"
    using train_succeeds [where MPI = MPI and nba = nba and nbt = nbt and ns = ns and ec = ec
        and vc = vc and mgn = None and w = w and comm = comm and mb = mb and \<theta> = \<theta>,
        OF td assms l(1) example_forward_any(1) l(2) example_forward_any(2) l(3)
        example_forward_any(3) l(4)]
    by blast
  then show ?thesis
    by (simp add: g, simp add: example_framework_def)
qed

text \<open>
  Claim C5, evaluated on the code.  With MPI available and no communicator given, the model
  synchronizes the initial variables over \<open>COMM_WORLD\<close>, but its trainer is the plain
  per-process Adam optimizer: two processes that start from the same variables and train on
  different batches apply each its own gradient and end with different variables.
\<close>

theorem trainer_applies_local_gradients:
  "sync_comm (Model_init True 2 2 1 (1 / 100) (1 / 2) None 1 None None) = Some COMM_WORLD
   \<and> trainer (Model_init True 2 2 1 (1 / 100) (1 / 2) None 1 None None) =
       AdamOptimizer LR (1 / 10 ^ 5)
   \<and> (\<exists>vs. train (Model_init True 2 2 1 (1 / 100) (1 / 2) None 1 None None) example_framework
              [[0, 0]] 1 (1 / 5) () [1, 3] () () [0, 0] [0, 0] None =
            Returns (vs, Some [[- 1, - 3]]))
   \<and> (\<exists>vs. train (Model_init True 2 2 1 (1 / 100) (1 / 2) None 1 None None) example_framework
              [[0, 0]] 1 (1 / 5) () [2, 6] () () [0, 0] [0, 0] None =
            Returns (vs, Some [[- 2, - 6]]))"
proof -
  have l: "length [1, 3 :: real] = 2" "length [2, 6 :: real] = 2" "length [0, 0 :: real] = 2"
    by simp_all
  have a: "example_adam 1 (1 / 10 ^ 5) [[1, 3]] [[0, 0]] = [[- 1, - 3]]"
    and b: "example_adam 1 (1 / 10 ^ 5) [[2, 6]] [[0, 0]] = [[- 2, - 6]]"
    by (simp_all add: example_adam_def)
  have s: "sync_comm (Model_init True 2 2 1 (1 / 100) (1 / 2) None 1 None None) =
      Some COMM_WORLD"
    and t: "trainer (Model_init True 2 2 1 (1 / 100) (1 / 2) None 1 None None) =
       AdamOptimizer LR (1 / 10 ^ 5)"
    by (simp_all add: Model_init_def Let_def)
  show ?thesis
    using example_train_state [OF l(1) l(3) l(3), of True 2 2 1 "1 / 100" "1 / 2" 1 None None
        "[[0, 0]]" 1 "1 / 5"]
      example_train_state [OF l(2) l(3) l(3), of True 2 2 1 "1 / 100" "1 / 2" 1 None None
        "[[0, 0]]" 1 "1 / 5"]
    unfolding a b using s t by blast
qed

section \<open>The base policy\<close>

text \<open>
  Claim C8.  Each of \<open>initialize\<close>, \<open>update\<close>, \<open>get_action\<close> and \<open>get_td_map\<close> of the base
  policy raises \<open>NotImplementedError\<close> for every object and all arguments, and leaves the
  object as it was.
\<close>

theorem base_policy_methods_raise:
  "initialize self = (Inl NotImplementedError, self)
   \<and> update self update_actor kwargs = (Inl NotImplementedError, self)
   \<and> get_action self obs context apply_noise random_actions env_num =
       (Inl NotImplementedError, self)
   \<and> get_td_map self = (Inl NotImplementedError, self)"
  by (simp add: initialize_def update_def get_action_def get_td_map_def)

text \<open>
  Claim C10.  \<open>_get_obs\<close> returns the observation itself when the context is \<open>None\<close>,
  whatever the axis; otherwise it returns the concatenation of the observation with the
  context along the axis, the context being flattened first exactly when the axis is 0.
  For a one-dimensional observation and axis 0 the result holds the elements of the
  observation followed by those of the context.
\<close>

theorem get_obs_identity_or_concatenation:
  "get_obs obs None axis = Inr obs
   \<and> get_obs obs (Some ctx) 0 = np_concatenate obs (flatten ctx) 0
   \<and> (axis \<noteq> 0 \<longrightarrow> get_obs obs (Some ctx) axis = np_concatenate obs ctx axis)
   \<and> (shape obs = [length (data obs)] \<longrightarrow>
        get_obs obs (Some ctx) 0 =
        Inr \<lparr>shape = [length (data obs) + length (data ctx)], data = data obs @ data ctx\<rparr>)"
  by (simp add: get_obs_def np_concatenate_def flatten_def Let_def)

theorem get_obs_identity_or_concatenation_witness:
  "get_obs \<lparr>shape = [2], data = [1, 2]\<rparr> (Some \<lparr>shape = [2, 1], data = [3, 4]\<rparr>) 0 =
     Inr \<lparr>shape = [4], data = [1, 2, 3, 4]\<rparr>
   \<and> get_obs \<lparr>shape = [2, 2], data = [1, 2, 3, 4]\<rparr> (Some \<lparr>shape = [2, 1], data = [5, 6]\<rparr>) 1 =
     Inr \<lparr>shape = [2, 3], data = [1, 2, 5, 3, 4, 6]\<rparr>"
proof -
  let ?o = "\<lparr>shape = [2], data = [1, 2]\<rparr>"
  let ?c = "\<lparr>shape = [2, 1], data = [3, 4]\<rparr>"
  have sh: "shape ?o = [length (data ?o)]" by simp
  have "get_obs ?o (Some ?c) 0 =
      Inr \<lparr>shape = [length (data ?o) + length (data ?c)], data = data ?o @ data ?c\<rparr>"
    using get_obs_identity_or_concatenation [where obs = ?o and ctx = ?c and axis = 0] sh
    by blast
  then have a: "get_obs ?o (Some ?c) 0 = Inr \<lparr>shape = [4], data = [1, 2, 3, 4]\<rparr>"
    by simp
  have "get_obs \<lparr>shape = [2, 2], data = [1, 2, 3, 4]\<rparr> (Some \<lparr>shape = [2, 1], data = [5, 6]\<rparr>) 1 =
     np_concatenate \<lparr>shape = [2, 2], data = [1, 2, 3, 4]\<rparr> \<lparr>shape = [2, 1], data = [5, 6]\<rparr> 1"
    using get_obs_identity_or_concatenation
      [where obs = "\<lparr>shape = [2, 2], data = [1, 2, 3, 4]\<rparr>" and axis = 1
         and ctx = "\<lparr>shape = [2, 1], data = [5, 6]\<rparr>"]
    by simp
  also have "\<dots> = Inr \<lparr>shape = [2, 3], data = [1, 2, 5, 3, 4, 6]\<rparr>"
    by (simp add: np_concatenate_def Let_def upt_rec [of 0 2] upt_rec [of "Suc 0" 2])
  finally show ?thesis using a by simp
qed

end
